theory Spec2Isabelle
  imports Main "HOL-Library.Word"
begin

section \<open>Values shared by the packages\<close>

text \<open>
  A Go byte is an 8-bit word and a Go string is a sequence of bytes, which is what
  an Isabelle \<open>string\<close> is. Go's \<open>int\<close> is an \<open>int\<close>: the functions below copy,
  compare and assign integers and never compute with them, so no overflow can occur.

  A slice that the code hands on as a whole, or only measures and ranges over, is the
  list of its elements: the nil slice and the empty slice both have length zero and
  range over nothing, and a copy of the slice value is nil exactly when the original
  is. Where the code builds a slice anew with \<open>append\<close>, or leaves a slice field of a
  composite literal at its zero value, the nil slice is told apart from the empty one:
  such a field is a \<open>slice\<close>, \<open>None\<close> being nil. \<open>elems\<close> is what a \<open>range\<close>
  loop visits, and \<open>append_elem\<close> is \<open>append(s, v)\<close>, whose result is never nil.
\<close>

type_synonym byte = "8 word"

type_synonym 'a slice = "'a list option"

definition elems :: "'a slice \<Rightarrow> 'a list" where
  "elems s = (case s of None \<Rightarrow> [] | Some xs \<Rightarrow> xs)"

definition append_elem :: "'a slice \<Rightarrow> 'a \<Rightarrow> 'a slice" where
  "append_elem s v = Some (elems s @ [v])"

definition bytes_of_string :: "string \<Rightarrow> byte list" where
  "bytes_of_string s = map (\<lambda>c. of_nat (of_char c)) s"

text \<open>
  Errors. \<open>New\<close> is \<open>errors.New\<close> and \<open>fmt.Errorf\<close> with the message already
  formatted; \<open>WithMessage\<close> is \<open>errors.WithMessage\<close> of \<open>github.com/pkg/errors\<close>,
  whose text is the message, a colon and the text of the cause. An error value
  of Go is \<open>error option\<close>, \<open>None\<close> being \<open>nil\<close>.
\<close>

datatype error = New string | WithMessage error string

fun Error :: "error \<Rightarrow> string" where
  "Error (New m) = m"
| "Error (WithMessage e m) = m @ '': '' @ Error e"

text \<open>
  A function of Go either returns or panics; the only panic of the functions modelled
  here is the dereference of a nil pointer.
\<close>

datatype panic = NilPointerDereference

datatype 'a go = Panics panic | Returns 'a

subsection \<open>Keys\<close>

text \<open>
  A public key is an interface value: nil, or a pointer to a key of one concrete
  type. The type switches of the source distinguish \<open>*ecdsa.PublicKey\<close> and
  \<open>*sm2.PublicKey\<close>; every other dynamic type takes the default branch.
\<close>

datatype Curve = P224 | P256 | P384 | P521 | P256Sm2 | OtherCurve nat

datatype PublicKey =
    NilPublicKey
  | RsaPublicKey int int
  | EcdsaPublicKey Curve int int
  | Sm2PublicKey Curve int int
  | OtherPublicKey nat

subsection \<open>pkix\<close>

record pkix_AttributeTypeAndValue =
  Type :: "int list"
  Value :: "string"

record pkix_Name =
  Country :: "string list"
  Organization :: "string list"
  OrganizationalUnit :: "string list"
  Locality :: "string list"
  Province :: "string list"
  StreetAddress :: "string list"
  PostalCode :: "string list"
  SerialNumber :: "string"
  CommonName :: "string"
  Names :: "pkix_AttributeTypeAndValue list"
  ExtraNames :: "pkix_AttributeTypeAndValue list"

record pkix_Extension =
  Id :: "int list"
  Critical :: "bool"
  ExtValue :: "byte list"

record time_Time =
  wall :: "64 word"
  ext :: "64 word"
  loc :: "string option"

section \<open>The two certificate representations\<close>

text \<open>
  \<open>crypto/x509\<close> and \<open>github.com/tjfoc/gmsm/sm2\<close> each declare
  \<open>SignatureAlgorithm\<close>, \<open>PublicKeyAlgorithm\<close>, \<open>KeyUsage\<close> and
  \<open>ExtKeyUsage\<close> as a named type over \<open>int\<close>. Each is a type of its own here, with
  the integer inside; the conversion \<open>x509.T(v)\<close> of Go keeps the integer and changes
  the type.
\<close>

datatype x509_SignatureAlgorithm = X509SignatureAlgorithm int

datatype sm2_SignatureAlgorithm = Sm2SignatureAlgorithm int

datatype x509_PublicKeyAlgorithm = X509PublicKeyAlgorithm int

datatype sm2_PublicKeyAlgorithm = Sm2PublicKeyAlgorithm int

datatype x509_KeyUsage = X509KeyUsage int

datatype sm2_KeyUsage = Sm2KeyUsage int

datatype x509_ExtKeyUsage = X509ExtKeyUsage int

datatype sm2_ExtKeyUsage = Sm2ExtKeyUsage int

fun x509_SignatureAlgorithm_of_sm2 :: "sm2_SignatureAlgorithm \<Rightarrow> x509_SignatureAlgorithm" where
  "x509_SignatureAlgorithm_of_sm2 (Sm2SignatureAlgorithm n) = X509SignatureAlgorithm n"

fun sm2_SignatureAlgorithm_of_x509 :: "x509_SignatureAlgorithm \<Rightarrow> sm2_SignatureAlgorithm" where
  "sm2_SignatureAlgorithm_of_x509 (X509SignatureAlgorithm n) = Sm2SignatureAlgorithm n"

fun x509_PublicKeyAlgorithm_of_sm2 :: "sm2_PublicKeyAlgorithm \<Rightarrow> x509_PublicKeyAlgorithm" where
  "x509_PublicKeyAlgorithm_of_sm2 (Sm2PublicKeyAlgorithm n) = X509PublicKeyAlgorithm n"

fun sm2_PublicKeyAlgorithm_of_x509 :: "x509_PublicKeyAlgorithm \<Rightarrow> sm2_PublicKeyAlgorithm" where
  "sm2_PublicKeyAlgorithm_of_x509 (X509PublicKeyAlgorithm n) = Sm2PublicKeyAlgorithm n"

fun x509_KeyUsage_of_sm2 :: "sm2_KeyUsage \<Rightarrow> x509_KeyUsage" where
  "x509_KeyUsage_of_sm2 (Sm2KeyUsage n) = X509KeyUsage n"

fun sm2_KeyUsage_of_x509 :: "x509_KeyUsage \<Rightarrow> sm2_KeyUsage" where
  "sm2_KeyUsage_of_x509 (X509KeyUsage n) = Sm2KeyUsage n"

fun x509_ExtKeyUsage_of_sm2 :: "sm2_ExtKeyUsage \<Rightarrow> x509_ExtKeyUsage" where
  "x509_ExtKeyUsage_of_sm2 (Sm2ExtKeyUsage n) = X509ExtKeyUsage n"

fun sm2_ExtKeyUsage_of_x509 :: "x509_ExtKeyUsage \<Rightarrow> sm2_ExtKeyUsage" where
  "sm2_ExtKeyUsage_of_x509 (X509ExtKeyUsage n) = Sm2ExtKeyUsage n"

text \<open>
  The two certificate structs are declared outside the repository.
  \<open>sm2.Certificate\<close> of \<open>github.com/tjfoc/gmsm/sm2\<close> has the thirty-six fields below,
  which are the fields that both converters name. \<open>x509.Certificate\<close> of the standard
  library \<open>crypto/x509\<close> has these fields too and, since Go 1.10, eight more that no
  converter names: \<open>URIs\<close> among the subject alternative names, and among the name
  constraints \<open>ExcludedDNSDomains\<close>, \<open>PermittedIPRanges\<close>, \<open>ExcludedIPRanges\<close>,
  \<open>PermittedEmailAddresses\<close>, \<open>ExcludedEmailAddresses\<close>, \<open>PermittedURIDomains\<close>
  and \<open>ExcludedURIDomains\<close>. The fields are in the order of the struct declarations.
  \<open>SerialNumber\<close> is a \<open>*big.Int\<close>, which may be nil. A URL is represented by its
  text and an IP network by its address and its mask.
\<close>

type_synonym url_URL = "string"

record net_IPNet =
  ipnet_IP :: "byte list"
  ipnet_Mask :: "byte list"

record x509_Certificate =
  x509_Raw :: "byte list"
  x509_RawTBSCertificate :: "byte list"
  x509_RawSubjectPublicKeyInfo :: "byte list"
  x509_RawSubject :: "byte list"
  x509_RawIssuer :: "byte list"
  x509_Signature :: "byte list"
  x509_SignatureAlgorithm :: "x509_SignatureAlgorithm"
  x509_PublicKeyAlgorithm :: "x509_PublicKeyAlgorithm"
  x509_PublicKey :: "PublicKey"
  x509_Version :: "int"
  x509_SerialNumber :: "int option"
  x509_Issuer :: "pkix_Name"
  x509_Subject :: "pkix_Name"
  x509_NotBefore :: "time_Time"
  x509_NotAfter :: "time_Time"
  x509_KeyUsage :: "x509_KeyUsage"
  x509_Extensions :: "pkix_Extension list"
  x509_ExtraExtensions :: "pkix_Extension list"
  x509_UnhandledCriticalExtensions :: "int list list"
  x509_ExtKeyUsage :: "x509_ExtKeyUsage slice"
  x509_UnknownExtKeyUsage :: "int list list"
  x509_BasicConstraintsValid :: "bool"
  x509_IsCA :: "bool"
  x509_MaxPathLen :: "int"
  x509_MaxPathLenZero :: "bool"
  x509_SubjectKeyId :: "byte list"
  x509_AuthorityKeyId :: "byte list"
  x509_OCSPServer :: "string list"
  x509_IssuingCertificateURL :: "string list"
  x509_DNSNames :: "string list"
  x509_EmailAddresses :: "string list"
  x509_IPAddresses :: "byte list list"
  x509_URIs :: "url_URL slice"
  x509_PermittedDNSDomainsCritical :: "bool"
  x509_PermittedDNSDomains :: "string list"
  x509_ExcludedDNSDomains :: "string slice"
  x509_PermittedIPRanges :: "net_IPNet slice"
  x509_ExcludedIPRanges :: "net_IPNet slice"
  x509_PermittedEmailAddresses :: "string slice"
  x509_ExcludedEmailAddresses :: "string slice"
  x509_PermittedURIDomains :: "string slice"
  x509_ExcludedURIDomains :: "string slice"
  x509_CRLDistributionPoints :: "string list"
  x509_PolicyIdentifiers :: "int list list"

record sm2_Certificate =
  sm2_Raw :: "byte list"
  sm2_RawTBSCertificate :: "byte list"
  sm2_RawSubjectPublicKeyInfo :: "byte list"
  sm2_RawSubject :: "byte list"
  sm2_RawIssuer :: "byte list"
  sm2_Signature :: "byte list"
  sm2_SignatureAlgorithm :: "sm2_SignatureAlgorithm"
  sm2_PublicKeyAlgorithm :: "sm2_PublicKeyAlgorithm"
  sm2_PublicKey :: "PublicKey"
  sm2_Version :: "int"
  sm2_SerialNumber :: "int option"
  sm2_Issuer :: "pkix_Name"
  sm2_Subject :: "pkix_Name"
  sm2_NotBefore :: "time_Time"
  sm2_NotAfter :: "time_Time"
  sm2_KeyUsage :: "sm2_KeyUsage"
  sm2_Extensions :: "pkix_Extension list"
  sm2_ExtraExtensions :: "pkix_Extension list"
  sm2_UnhandledCriticalExtensions :: "int list list"
  sm2_ExtKeyUsage :: "sm2_ExtKeyUsage slice"
  sm2_UnknownExtKeyUsage :: "int list list"
  sm2_BasicConstraintsValid :: "bool"
  sm2_IsCA :: "bool"
  sm2_MaxPathLen :: "int"
  sm2_MaxPathLenZero :: "bool"
  sm2_SubjectKeyId :: "byte list"
  sm2_AuthorityKeyId :: "byte list"
  sm2_OCSPServer :: "string list"
  sm2_IssuingCertificateURL :: "string list"
  sm2_DNSNames :: "string list"
  sm2_EmailAddresses :: "string list"
  sm2_IPAddresses :: "byte list list"
  sm2_PermittedDNSDomainsCritical :: "bool"
  sm2_PermittedDNSDomains :: "string list"
  sm2_CRLDistributionPoints :: "string list"
  sm2_PolicyIdentifiers :: "int list list"

section \<open>fabric-ca/util/util.go: the converters\<close>

text \<open>
  The composite literal of \<open>ParseSm2Certificate2X509\<close> leaves out \<open>ExtKeyUsage\<close> and
  the eight fields that only \<open>x509.Certificate\<close> has, so each of them starts as the nil
  slice; the loop after the literal ranges over the extended key usages of its argument
  and appends the converted elements one at a time.
\<close>

fun append_ExtKeyUsage_x509 :: "x509_Certificate \<Rightarrow> sm2_ExtKeyUsage list \<Rightarrow> x509_Certificate" where
  "append_ExtKeyUsage_x509 x509cert [] = x509cert"
| "append_ExtKeyUsage_x509 x509cert (val # vals) =
     append_ExtKeyUsage_x509
       (x509cert\<lparr>x509_ExtKeyUsage :=
           append_elem (x509_ExtKeyUsage x509cert) (x509_ExtKeyUsage_of_sm2 val)\<rparr>) vals"

definition ParseSm2Certificate2X509 :: "sm2_Certificate \<Rightarrow> x509_Certificate" where
  "ParseSm2Certificate2X509 sm2Cert =
     append_ExtKeyUsage_x509
     \<lparr>
       x509_Raw = sm2_Raw sm2Cert,
       x509_RawTBSCertificate = sm2_RawTBSCertificate sm2Cert,
       x509_RawSubjectPublicKeyInfo = sm2_RawSubjectPublicKeyInfo sm2Cert,
       x509_RawSubject = sm2_RawSubject sm2Cert,
       x509_RawIssuer = sm2_RawIssuer sm2Cert,
       x509_Signature = sm2_Signature sm2Cert,
       x509_SignatureAlgorithm = x509_SignatureAlgorithm_of_sm2 (sm2_SignatureAlgorithm sm2Cert),
       x509_PublicKeyAlgorithm = x509_PublicKeyAlgorithm_of_sm2 (sm2_PublicKeyAlgorithm sm2Cert),
       x509_PublicKey = sm2_PublicKey sm2Cert,
       x509_Version = sm2_Version sm2Cert,
       x509_SerialNumber = sm2_SerialNumber sm2Cert,
       x509_Issuer = sm2_Issuer sm2Cert,
       x509_Subject = sm2_Subject sm2Cert,
       x509_NotBefore = sm2_NotBefore sm2Cert,
       x509_NotAfter = sm2_NotAfter sm2Cert,
       x509_KeyUsage = x509_KeyUsage_of_sm2 (sm2_KeyUsage sm2Cert),
       x509_Extensions = sm2_Extensions sm2Cert,
       x509_ExtraExtensions = sm2_ExtraExtensions sm2Cert,
       x509_UnhandledCriticalExtensions = sm2_UnhandledCriticalExtensions sm2Cert,
       x509_ExtKeyUsage = None,
       x509_UnknownExtKeyUsage = sm2_UnknownExtKeyUsage sm2Cert,
       x509_BasicConstraintsValid = sm2_BasicConstraintsValid sm2Cert,
       x509_IsCA = sm2_IsCA sm2Cert,
       x509_MaxPathLen = sm2_MaxPathLen sm2Cert,
       x509_MaxPathLenZero = sm2_MaxPathLenZero sm2Cert,
       x509_SubjectKeyId = sm2_SubjectKeyId sm2Cert,
       x509_AuthorityKeyId = sm2_AuthorityKeyId sm2Cert,
       x509_OCSPServer = sm2_OCSPServer sm2Cert,
       x509_IssuingCertificateURL = sm2_IssuingCertificateURL sm2Cert,
       x509_DNSNames = sm2_DNSNames sm2Cert,
       x509_EmailAddresses = sm2_EmailAddresses sm2Cert,
       x509_IPAddresses = sm2_IPAddresses sm2Cert,
       x509_URIs = None,
       x509_PermittedDNSDomainsCritical = sm2_PermittedDNSDomainsCritical sm2Cert,
       x509_PermittedDNSDomains = sm2_PermittedDNSDomains sm2Cert,
       x509_ExcludedDNSDomains = None,
       x509_PermittedIPRanges = None,
       x509_ExcludedIPRanges = None,
       x509_PermittedEmailAddresses = None,
       x509_ExcludedEmailAddresses = None,
       x509_PermittedURIDomains = None,
       x509_ExcludedURIDomains = None,
       x509_CRLDistributionPoints = sm2_CRLDistributionPoints sm2Cert,
       x509_PolicyIdentifiers = sm2_PolicyIdentifiers sm2Cert
     \<rparr>
     (elems (sm2_ExtKeyUsage sm2Cert))"

text \<open>
  The composite literal of \<open>ParseX509Certificate2Sm2\<close> leaves out \<open>ExtKeyUsage\<close>, and
  reads none of the eight fields that only \<open>x509.Certificate\<close> has.
\<close>

fun append_ExtKeyUsage_sm2 :: "sm2_Certificate \<Rightarrow> x509_ExtKeyUsage list \<Rightarrow> sm2_Certificate" where
  "append_ExtKeyUsage_sm2 sm2cert [] = sm2cert"
| "append_ExtKeyUsage_sm2 sm2cert (val # vals) =
     append_ExtKeyUsage_sm2
       (sm2cert\<lparr>sm2_ExtKeyUsage :=
           append_elem (sm2_ExtKeyUsage sm2cert) (sm2_ExtKeyUsage_of_x509 val)\<rparr>) vals"

definition ParseX509Certificate2Sm2 :: "x509_Certificate \<Rightarrow> sm2_Certificate" where
  "ParseX509Certificate2Sm2 x509Cert =
     append_ExtKeyUsage_sm2
     \<lparr>
       sm2_Raw = x509_Raw x509Cert,
       sm2_RawTBSCertificate = x509_RawTBSCertificate x509Cert,
       sm2_RawSubjectPublicKeyInfo = x509_RawSubjectPublicKeyInfo x509Cert,
       sm2_RawSubject = x509_RawSubject x509Cert,
       sm2_RawIssuer = x509_RawIssuer x509Cert,
       sm2_Signature = x509_Signature x509Cert,
       sm2_SignatureAlgorithm = sm2_SignatureAlgorithm_of_x509 (x509_SignatureAlgorithm x509Cert),
       sm2_PublicKeyAlgorithm = sm2_PublicKeyAlgorithm_of_x509 (x509_PublicKeyAlgorithm x509Cert),
       sm2_PublicKey = x509_PublicKey x509Cert,
       sm2_Version = x509_Version x509Cert,
       sm2_SerialNumber = x509_SerialNumber x509Cert,
       sm2_Issuer = x509_Issuer x509Cert,
       sm2_Subject = x509_Subject x509Cert,
       sm2_NotBefore = x509_NotBefore x509Cert,
       sm2_NotAfter = x509_NotAfter x509Cert,
       sm2_KeyUsage = sm2_KeyUsage_of_x509 (x509_KeyUsage x509Cert),
       sm2_Extensions = x509_Extensions x509Cert,
       sm2_ExtraExtensions = x509_ExtraExtensions x509Cert,
       sm2_UnhandledCriticalExtensions = x509_UnhandledCriticalExtensions x509Cert,
       sm2_ExtKeyUsage = None,
       sm2_UnknownExtKeyUsage = x509_UnknownExtKeyUsage x509Cert,
       sm2_BasicConstraintsValid = x509_BasicConstraintsValid x509Cert,
       sm2_IsCA = x509_IsCA x509Cert,
       sm2_MaxPathLen = x509_MaxPathLen x509Cert,
       sm2_MaxPathLenZero = x509_MaxPathLenZero x509Cert,
       sm2_SubjectKeyId = x509_SubjectKeyId x509Cert,
       sm2_AuthorityKeyId = x509_AuthorityKeyId x509Cert,
       sm2_OCSPServer = x509_OCSPServer x509Cert,
       sm2_IssuingCertificateURL = x509_IssuingCertificateURL x509Cert,
       sm2_DNSNames = x509_DNSNames x509Cert,
       sm2_EmailAddresses = x509_EmailAddresses x509Cert,
       sm2_IPAddresses = x509_IPAddresses x509Cert,
       sm2_PermittedDNSDomainsCritical = x509_PermittedDNSDomainsCritical x509Cert,
       sm2_PermittedDNSDomains = x509_PermittedDNSDomains x509Cert,
       sm2_CRLDistributionPoints = x509_CRLDistributionPoints x509Cert,
       sm2_PolicyIdentifiers = x509_PolicyIdentifiers x509Cert
     \<rparr>
     (elems (x509_ExtKeyUsage x509Cert))"


section \<open>fabric-ca/util/util.go: tokens\<close>

text \<open>
  \<open>B64Encode\<close> is \<open>base64.StdEncoding.EncodeToString\<close>: the standard alphabet of
  RFC 4648 with padding. Three bytes make a 24-bit value whose four 6-bit digits index
  the alphabet; a last group of one or two bytes is padded with \<open>=\<close>.
\<close>

definition encodeStd :: "string" where
  "encodeStd = ''ABCDEFGHIJKLMNOPQRSTUVWXYZabcdefghijklmnopqrstuvwxyz0123456789+/''"

definition b64_digit :: "nat \<Rightarrow> char" where
  "b64_digit val = encodeStd ! (val mod 64)"

fun B64Encode :: "byte list \<Rightarrow> string" where
  "B64Encode [] = []"
| "B64Encode [a] =
     (let val = unat a * 65536
      in [b64_digit (val div 262144), b64_digit (val div 4096), CHR ''='', CHR ''=''])"
| "B64Encode [a, b] =
     (let val = unat a * 65536 + unat b * 256
      in [b64_digit (val div 262144), b64_digit (val div 4096), b64_digit (val div 64), CHR ''=''])"
| "B64Encode (a # b # c # rest) =
     (let val = unat a * 65536 + unat b * 256 + unat c
      in [b64_digit (val div 262144), b64_digit (val div 4096), b64_digit (val div 64), b64_digit val])
     @ B64Encode rest"

text \<open>
  The crypto suite is an interface; a value of it is the record of its methods. The
  two methods used here return a byte slice and an error. The key is opaque.
\<close>

datatype HashOpts = SHAOpts | SHA256Opts

type_synonym SignerOpts = nat

record 'k CryptoSuite =
  Hash :: "byte list \<Rightarrow> HashOpts \<Rightarrow> byte list \<times> error option"
  Sign :: "'k \<Rightarrow> byte list \<Rightarrow> SignerOpts option \<Rightarrow> byte list \<times> error option"

definition GetSHAOpts :: "HashOpts" where
  "GetSHAOpts = SHAOpts"

definition genECDSAToken :: "'k CryptoSuite \<Rightarrow> 'k \<Rightarrow> string \<Rightarrow> string \<Rightarrow> string \<times> error option" where
  "genECDSAToken csp key b64cert payload =
     (case Hash csp (bytes_of_string payload) GetSHAOpts of
        (digest, Some digestError) \<Rightarrow>
          ([], Some (WithMessage digestError
                 (''Hash failed on '' @ [CHR 0x27] @ payload @ [CHR 0x27])))
      | (digest, None) \<Rightarrow>
          (case Sign csp key digest None of
             (ecSignature, Some err) \<Rightarrow>
               ([], Some (WithMessage err ''BCCSP signature generation failure''))
           | (ecSignature, None) \<Rightarrow>
               if length ecSignature = 0
               then ([], Some (New ''BCCSP signature creation failed. Signature must be different than nil''))
               else (b64cert @ ''.'' @ B64Encode ecSignature, None)))"

definition GenECDSAToken ::
  "'k CryptoSuite \<Rightarrow> byte list \<Rightarrow> 'k \<Rightarrow> string \<Rightarrow> string \<Rightarrow> byte list \<Rightarrow> bool \<Rightarrow> string \<times> error option" where
  "GenECDSAToken csp cert key method uri body fabCACompatibilityMode =
     (let b64body = B64Encode body;
          b64cert = B64Encode cert;
          b64uri = B64Encode (bytes_of_string uri);
          payload = method @ ''.'' @ b64uri @ ''.'' @ b64body @ ''.'' @ b64cert;
          payload = (if fabCACompatibilityMode then b64body @ ''.'' @ b64cert else payload)
      in genECDSAToken csp key b64cert payload)"

section \<open>fabric-ca/util/util.go: certificates from PEM\<close>

text \<open>
  \<open>pem.Decode\<close> and \<open>sm2.ParseCertificate\<close> belong to libraries outside the
  repository and are parameters of the model. \<open>pem.Decode\<close> returns the first block
  or nil (the rest of the input, its second result, is discarded by the caller).
  \<open>sm2.ParseCertificate\<close> returns a certificate or an error.
\<close>

record pem_Block =
  pem_Type :: "string"
  pem_Headers :: "(string \<times> string) list"
  pem_Bytes :: "byte list"

record util_lib =
  pem_Decode :: "byte list \<Rightarrow> pem_Block option"
  sm2_ParseCertificate :: "byte list \<Rightarrow> error + sm2_Certificate"

text \<open>
  The result is the pair of Go: a pointer to a certificate, which may be nil, and an
  error, which may be nil. The error of the parser is tested and then dropped.
\<close>

definition GetX509CertificateFromPEM ::
  "util_lib \<Rightarrow> byte list \<Rightarrow> x509_Certificate option \<times> error option" where
  "GetX509CertificateFromPEM lib cert =
     (case pem_Decode lib cert of
        None \<Rightarrow> (None, Some (New ''Failed to PEM decode certificate''))
      | Some block \<Rightarrow>
          (case sm2_ParseCertificate lib (pem_Bytes block) of
             Inr sm2x509Cert \<Rightarrow> (Some (ParseSm2Certificate2X509 sm2x509Cert), None)
           | Inl err \<Rightarrow> (None, None)))"

text \<open>Reading a field through a nil pointer panics.\<close>

definition GetEnrollmentIDFromX509Certificate :: "x509_Certificate option \<Rightarrow> string go" where
  "GetEnrollmentIDFromX509Certificate cert =
     (case cert of
        None \<Rightarrow> Panics NilPointerDereference
      | Some c \<Rightarrow> Returns (CommonName (x509_Subject c)))"

definition GetEnrollmentIDFromPEM :: "util_lib \<Rightarrow> byte list \<Rightarrow> (string \<times> error option) go" where
  "GetEnrollmentIDFromPEM lib cert =
     (case GetX509CertificateFromPEM lib cert of
        (x509Cert, Some err) \<Rightarrow> Returns ([], Some err)
      | (x509Cert, None) \<Rightarrow>
          (case GetEnrollmentIDFromX509Certificate x509Cert of
             Panics p \<Rightarrow> Panics p
           | Returns cn \<Rightarrow> Returns (cn, None)))"

text \<open>
  The type switch of \<open>CreateToken\<close> has a case for \<open>*ecdsa.PublicKey\<close>, a case for
  \<open>*sm2.PublicKey\<close> and no default: with any other key the token keeps its zero
  value, the empty string.
\<close>

definition CreateToken ::
  "util_lib \<Rightarrow> 'k CryptoSuite \<Rightarrow> byte list \<Rightarrow> 'k \<Rightarrow> string \<Rightarrow> string \<Rightarrow> byte list \<Rightarrow> bool
     \<Rightarrow> (string \<times> error option) go" where
  "CreateToken lib csp cert key method uri body fabCACompatibilityMode =
     (case GetX509CertificateFromPEM lib cert of
        (x509Cert, Some err) \<Rightarrow> Returns ([], Some err)
      | (None, None) \<Rightarrow> Panics NilPointerDereference
      | (Some c, None) \<Rightarrow>
          (case x509_PublicKey c of
             EcdsaPublicKey curve x y \<Rightarrow>
               (case GenECDSAToken csp cert key method uri body fabCACompatibilityMode of
                  (token, Some err) \<Rightarrow> Returns ([], Some err)
                | (token, None) \<Rightarrow> Returns (token, None))
           | Sm2PublicKey curve x y \<Rightarrow>
               (case GenECDSAToken csp cert key method uri body fabCACompatibilityMode of
                  (token, Some err) \<Rightarrow> Returns ([], Some err)
                | (token, None) \<Rightarrow> Returns (token, None))
           | NilPublicKey \<Rightarrow> Returns ([], None)
           | RsaPublicKey n e \<Rightarrow> Returns ([], None)
           | OtherPublicKey t \<Rightarrow> Returns ([], None)))"


section \<open>The certificate request builder (package lib)\<close>

text \<open>
  The request template of cfssl, its CA configuration and the structure that is
  marshalled into the basic-constraints extension. \<open>crypto.Signer\<close> is an interface;
  the builder calls only its method \<open>Public\<close>.
\<close>

record csr_CAConfig =
  PathLength :: "int"
  PathLenZero :: "bool"
  Expiry :: "string"
  Backdate :: "string"

record csr_CertificateRequest =
  req_CN :: "string"
  req_Hosts :: "string list"
  req_CA :: "csr_CAConfig option"
  req_SerialNumber :: "string"

record csr_BasicConstraints =
  bc_IsCA :: "bool"
  bc_MaxPathLen :: "int"

record crypto_Signer =
  Public :: "PublicKey"

record mail_Address =
  mail_Name :: "string"
  mail_Address :: "string"

text \<open>
  The fields of \<open>sm2.CertificateRequest\<close> that the builder sets, in the order of the
  struct declaration; the builder leaves every other field at its zero value.
\<close>

record sm2_CertificateRequest =
  csr_SignatureAlgorithm :: "sm2_SignatureAlgorithm"
  csr_Subject :: "pkix_Name"
  csr_ExtraExtensions :: "pkix_Extension list"
  csr_DNSNames :: "string list"
  csr_EmailAddresses :: "string list"
  csr_IPAddresses :: "byte list list"

text \<open>
  The two values of \<open>sm2.SignatureAlgorithm\<close> that the builder names. The type is
  declared in \<open>github.com/tjfoc/gmsm/sm2\<close> as an \<open>iota\<close> enumeration that starts at
  \<open>UnknownSignatureAlgorithm\<close>; the builder only compares the two values.
\<close>

definition UnknownSignatureAlgorithm :: "sm2_SignatureAlgorithm" where
  "UnknownSignatureAlgorithm = Sm2SignatureAlgorithm 0"

definition SM2WithSM3 :: "sm2_SignatureAlgorithm" where
  "SM2WithSM3 = Sm2SignatureAlgorithm 16"

text \<open>
  What the builder calls outside the repository: \<open>net.ParseIP\<close> (an address or nil),
  \<open>mail.ParseAddress\<close> (an address or an error), \<open>asn1.Marshal\<close> on a
  \<open>csr.BasicConstraints\<close> (bytes or an error) and the method \<open>Name\<close> of the
  request. The last three fields are what the signing of a request rests on: the
  digest of a template, the signing primitive of the provider that backs the key, and
  the DER encoding of a template with its signature.
\<close>

record 'k csr_lib =
  net_ParseIP :: "string \<Rightarrow> byte list option"
  mail_ParseAddress :: "string \<Rightarrow> error + mail_Address"
  asn1_Marshal :: "csr_BasicConstraints \<Rightarrow> error + byte list"
  req_Name :: "csr_CertificateRequest \<Rightarrow> pkix_Name"
  csr_digest :: "sm2_CertificateRequest \<Rightarrow> byte list"
  sign_primitive :: "'k \<Rightarrow> byte list \<Rightarrow> byte list \<times> error option"
  csr_encode :: "sm2_CertificateRequest \<Rightarrow> byte list \<Rightarrow> byte list"

definition signerAlgo :: "crypto_Signer \<Rightarrow> sm2_SignatureAlgorithm" where
  "signerAlgo priv =
     (case Public priv of
        Sm2PublicKey curve x y \<Rightarrow> (if curve = P256Sm2 then SM2WithSM3 else SM2WithSM3)
      | NilPublicKey \<Rightarrow> UnknownSignatureAlgorithm
      | RsaPublicKey n e \<Rightarrow> UnknownSignatureAlgorithm
      | EcdsaPublicKey curve x y \<Rightarrow> UnknownSignatureAlgorithm
      | OtherPublicKey t \<Rightarrow> UnknownSignatureAlgorithm)"

text \<open>
  \<open>appendCAInfoToCSRSm2\<close> writes through the pointer to the request: the model
  returns the request next to the error.
\<close>

definition appendCAInfoToCSRSm2 ::
  "'k csr_lib \<Rightarrow> csr_CAConfig \<Rightarrow> sm2_CertificateRequest \<Rightarrow> sm2_CertificateRequest \<times> error option" where
  "appendCAInfoToCSRSm2 lib reqConf csreq =
     (let pathlen = PathLength reqConf;
          pathlen = (if pathlen = 0 \<and> \<not> PathLenZero reqConf then - 1 else pathlen)
      in case asn1_Marshal lib \<lparr>bc_IsCA = True, bc_MaxPathLen = pathlen\<rparr> of
           Inl err \<Rightarrow> (csreq, Some err)
         | Inr val \<Rightarrow>
             (csreq\<lparr>csr_ExtraExtensions :=
                 [\<lparr>Id = [2, 5, 29, 19], Critical = True, ExtValue = val\<rparr>]\<rparr>, None))"

text \<open>The loop of \<open>generate\<close> over the hosts of the request, in the order of the slice.\<close>

fun classify_hosts :: "'k csr_lib \<Rightarrow> string list \<Rightarrow> sm2_CertificateRequest \<Rightarrow> sm2_CertificateRequest" where
  "classify_hosts lib [] tpl = tpl"
| "classify_hosts lib (host # hosts) tpl =
     classify_hosts lib hosts
       (case net_ParseIP lib host of
          Some ip \<Rightarrow> tpl\<lparr>csr_IPAddresses := csr_IPAddresses tpl @ [ip]\<rparr>
        | None \<Rightarrow>
            (case mail_ParseAddress lib host of
               Inr email \<Rightarrow> tpl\<lparr>csr_EmailAddresses := csr_EmailAddresses tpl @ [mail_Address email]\<rparr>
             | Inl err \<Rightarrow> tpl\<lparr>csr_DNSNames := csr_DNSNames tpl @ [host]\<rparr>))"

text \<open>
  Modelled from the spec: \<open>gm.CreateSm2CertificateRequestToMem\<close>, a function of this
  repository whose source is not among the files at hand. The specification says of the
  last step of the builder: sign and DER-encode the request using the resolved
  algorithm and the supplied key, and propagate any signing failure; and of signing:
  it fails with \<open>EmptySignature\<close> if the underlying primitive returns a zero-length
  result, which is a failure and not a success with an empty payload.
\<close>

definition EmptySignature :: "error" where
  "EmptySignature = New ''EmptySignature''"

definition CreateSm2CertificateRequestToMem ::
  "'k csr_lib \<Rightarrow> sm2_CertificateRequest \<Rightarrow> 'k \<Rightarrow> byte list \<times> error option" where
  "CreateSm2CertificateRequestToMem lib tpl key =
     (case sign_primitive lib key (csr_digest lib tpl) of
        (signature, Some err) \<Rightarrow> ([], Some err)
      | (signature, None) \<Rightarrow>
          if length signature = 0 then ([], Some EmptySignature)
          else (csr_encode lib tpl signature, None))"

text \<open>
  \<open>generate\<close>. The results are named: the return after a failure of
  \<open>appendCAInfoToCSRSm2\<close> returns the request bytes as they are then, nil. The test
  of the serial number of the request has an empty body.
\<close>

definition generate ::
  "'k csr_lib \<Rightarrow> crypto_Signer \<Rightarrow> csr_CertificateRequest \<Rightarrow> 'k \<Rightarrow> byte list \<times> error option" where
  "generate lib priv req key =
     (let sigAlgo = signerAlgo priv
      in if sigAlgo = UnknownSignatureAlgorithm
         then ([], Some (New ''Private key is unavailable ''))
         else
           (let tpl = \<lparr>csr_SignatureAlgorithm = sigAlgo,
                       csr_Subject = req_Name lib req,
                       csr_ExtraExtensions = [],
                       csr_DNSNames = [],
                       csr_EmailAddresses = [],
                       csr_IPAddresses = []\<rparr>;
                tpl = classify_hosts lib (req_Hosts req) tpl
            in case req_CA req of
                 None \<Rightarrow> CreateSm2CertificateRequestToMem lib tpl key
               | Some ca \<Rightarrow>
                   (case appendCAInfoToCSRSm2 lib ca tpl of
                      (tpl, Some err) \<Rightarrow>
                        ([], Some (New (''failed to appendCAInfoToCSRSm2 :'' @ Error err)))
                    | (tpl, None) \<Rightarrow> CreateSm2CertificateRequestToMem lib tpl key)))"


section \<open>Concrete inputs\<close>

text \<open>
  A PEM block whose content is the single byte 0, which is not the DER encoding of a
  certificate; a certificate with a given public key; a library whose PEM decoder
  accepts that block and whose certificate parser either rejects every input or returns
  that certificate; and a crypto suite that hashes a message to its first two bytes and
  signs with a fixed signature.
\<close>

definition example_pem :: "byte list" where
  "example_pem = bytes_of_string (''-----BEGIN CERTIFICATE-----'' @ [CHR 0x0A] @ ''AA=='' @ [CHR 0x0A]
       @ ''-----END CERTIFICATE-----'' @ [CHR 0x0A])"

definition example_Name :: "pkix_Name" where
  "example_Name = \<lparr>Country = [], Organization = [], OrganizationalUnit = [], Locality = [],
     Province = [], StreetAddress = [], PostalCode = [], SerialNumber = [], CommonName = ''admin'',
     Names = [], ExtraNames = []\<rparr>"

definition example_Time :: "time_Time" where
  "example_Time = \<lparr>wall = 0, ext = 0, loc = None\<rparr>"

definition example_sm2_Certificate :: "PublicKey \<Rightarrow> sm2_Certificate" where
  "example_sm2_Certificate pub =
     \<lparr>sm2_Raw = [0], sm2_RawTBSCertificate = [], sm2_RawSubjectPublicKeyInfo = [],
      sm2_RawSubject = [], sm2_RawIssuer = [], sm2_Signature = [],
      sm2_SignatureAlgorithm = Sm2SignatureAlgorithm 16,
      sm2_PublicKeyAlgorithm = Sm2PublicKeyAlgorithm 3,
      sm2_PublicKey = pub, sm2_Version = 3, sm2_SerialNumber = Some 1,
      sm2_Issuer = example_Name, sm2_Subject = example_Name,
      sm2_NotBefore = example_Time, sm2_NotAfter = example_Time,
      sm2_KeyUsage = Sm2KeyUsage 1, sm2_Extensions = [], sm2_ExtraExtensions = [],
      sm2_UnhandledCriticalExtensions = [], sm2_ExtKeyUsage = Some [Sm2ExtKeyUsage 2],
      sm2_UnknownExtKeyUsage = [], sm2_BasicConstraintsValid = False, sm2_IsCA = False,
      sm2_MaxPathLen = 0, sm2_MaxPathLenZero = False, sm2_SubjectKeyId = [],
      sm2_AuthorityKeyId = [], sm2_OCSPServer = [], sm2_IssuingCertificateURL = [],
      sm2_DNSNames = [], sm2_EmailAddresses = [], sm2_IPAddresses = [],
      sm2_PermittedDNSDomainsCritical = False, sm2_PermittedDNSDomains = [],
      sm2_CRLDistributionPoints = [], sm2_PolicyIdentifiers = []\<rparr>"

text \<open>
  A standard certificate with given URIs among its subject alternative names and none
  of the other name constraints that only \<open>x509.Certificate\<close> has.
\<close>

definition example_x509_Certificate :: "url_URL slice \<Rightarrow> x509_Certificate" where
  "example_x509_Certificate uris =
     \<lparr>
      x509_Raw = [0],
      x509_RawTBSCertificate = [],
      x509_RawSubjectPublicKeyInfo = [],
      x509_RawSubject = [],
      x509_RawIssuer = [],
      x509_Signature = [],
      x509_SignatureAlgorithm = X509SignatureAlgorithm 10,
      x509_PublicKeyAlgorithm = X509PublicKeyAlgorithm 3,
      x509_PublicKey = EcdsaPublicKey P256 1 2,
      x509_Version = 3,
      x509_SerialNumber = Some 1,
      x509_Issuer = example_Name,
      x509_Subject = example_Name,
      x509_NotBefore = example_Time,
      x509_NotAfter = example_Time,
      x509_KeyUsage = X509KeyUsage 1,
      x509_Extensions = [],
      x509_ExtraExtensions = [],
      x509_UnhandledCriticalExtensions = [],
      x509_ExtKeyUsage = Some [X509ExtKeyUsage 2],
      x509_UnknownExtKeyUsage = [],
      x509_BasicConstraintsValid = False,
      x509_IsCA = False,
      x509_MaxPathLen = 0,
      x509_MaxPathLenZero = False,
      x509_SubjectKeyId = [],
      x509_AuthorityKeyId = [],
      x509_OCSPServer = [],
      x509_IssuingCertificateURL = [],
      x509_DNSNames = [],
      x509_EmailAddresses = [],
      x509_IPAddresses = [],
      x509_URIs = uris,
      x509_PermittedDNSDomainsCritical = False,
      x509_PermittedDNSDomains = [],
      x509_ExcludedDNSDomains = None,
      x509_PermittedIPRanges = None,
      x509_ExcludedIPRanges = None,
      x509_PermittedEmailAddresses = None,
      x509_ExcludedEmailAddresses = None,
      x509_PermittedURIDomains = None,
      x509_ExcludedURIDomains = None,
      x509_CRLDistributionPoints = [],
      x509_PolicyIdentifiers = []
     \<rparr>"

definition example_util_lib :: "PublicKey option \<Rightarrow> util_lib" where
  "example_util_lib pub =
     \<lparr>pem_Decode = (\<lambda>cert. if cert = example_pem
          then Some \<lparr>pem_Type = ''CERTIFICATE'', pem_Headers = [], pem_Bytes = [0]\<rparr> else None),
      sm2_ParseCertificate = (\<lambda>der. case pub of
          None \<Rightarrow> Inl (New ''asn1: structure error'')
        | Some k \<Rightarrow> Inr (example_sm2_Certificate k))\<rparr>"

definition example_csp :: "byte list \<Rightarrow> nat CryptoSuite" where
  "example_csp signature =
     \<lparr>Hash = (\<lambda>msg opts. (take 2 msg, None)),
      Sign = (\<lambda>k digest opts. (signature, None))\<rparr>"

text \<open>
  For the request builder: a library that knows one IP literal and one mail address,
  marshals the basic constraints of a CA with path length -1 or 0 and signs with a
  fixed signature; and the request of the scenario of the specification, with hosts
  \<open>10.0.0.1\<close>, \<open>a@b.com\<close> and \<open>example.org\<close>.
\<close>

definition example_csr_lib :: "byte list \<Rightarrow> nat csr_lib" where
  "example_csr_lib signature =
     \<lparr>net_ParseIP = (\<lambda>host. if host = ''10.0.0.1''
          then Some [0, 0, 0, 0, 0, 0, 0, 0, 0, 0, 255, 255, 10, 0, 0, 1] else None),
      mail_ParseAddress = (\<lambda>host. if host = ''a@b.com''
          then Inr \<lparr>mail_Name = [], mail_Address = ''a@b.com''\<rparr>
          else Inl (New ''mail: missing @ or angle-addr'')),
      asn1_Marshal = (\<lambda>bc. if bc_IsCA bc \<and> bc_MaxPathLen bc = - 1 then Inr [48, 3, 1, 1, 255]
          else if bc_IsCA bc \<and> bc_MaxPathLen bc = 0 then Inr [48, 6, 1, 1, 255, 2, 1, 0]
          else Inl (New ''asn1: structure error'')),
      req_Name = (\<lambda>req. example_Name\<lparr>CommonName := req_CN req\<rparr>),
      csr_digest = (\<lambda>tpl. [1]),
      sign_primitive = (\<lambda>key digest. (signature, None)),
      csr_encode = (\<lambda>tpl signature. 48 # signature)\<rparr>"

definition example_request :: "csr_CAConfig option \<Rightarrow> csr_CertificateRequest" where
  "example_request ca =
     \<lparr>req_CN = ''test'', req_Hosts = [''10.0.0.1'', ''a@b.com'', ''example.org''],
      req_CA = ca, req_SerialNumber = []\<rparr>"

section \<open>Properties of the converters\<close>

text \<open>
  The loops that copy the extended key usages are maps that keep the order; a loop that
  ranges over nothing leaves the nil slice of the literal as it is.
\<close>

lemma append_ExtKeyUsage_x509_eq:
  "append_ExtKeyUsage_x509 c vals =
     (if vals = [] then c
      else c\<lparr>x509_ExtKeyUsage := Some (elems (x509_ExtKeyUsage c) @ map x509_ExtKeyUsage_of_sm2 vals)\<rparr>)"
  by (induction vals arbitrary: c) (simp_all add: append_elem_def elems_def)

lemma append_ExtKeyUsage_sm2_eq:
  "append_ExtKeyUsage_sm2 c vals =
     (if vals = [] then c
      else c\<lparr>sm2_ExtKeyUsage := Some (elems (sm2_ExtKeyUsage c) @ map sm2_ExtKeyUsage_of_x509 vals)\<rparr>)"
  by (induction vals arbitrary: c) (simp_all add: append_elem_def elems_def)

text \<open>Each converter as one record, the loop resolved.\<close>

lemma ParseSm2Certificate2X509_eq:
  "ParseSm2Certificate2X509 s =
     \<lparr>
       x509_Raw = sm2_Raw s,
       x509_RawTBSCertificate = sm2_RawTBSCertificate s,
       x509_RawSubjectPublicKeyInfo = sm2_RawSubjectPublicKeyInfo s,
       x509_RawSubject = sm2_RawSubject s,
       x509_RawIssuer = sm2_RawIssuer s,
       x509_Signature = sm2_Signature s,
       x509_SignatureAlgorithm = x509_SignatureAlgorithm_of_sm2 (sm2_SignatureAlgorithm s),
       x509_PublicKeyAlgorithm = x509_PublicKeyAlgorithm_of_sm2 (sm2_PublicKeyAlgorithm s),
       x509_PublicKey = sm2_PublicKey s,
       x509_Version = sm2_Version s,
       x509_SerialNumber = sm2_SerialNumber s,
       x509_Issuer = sm2_Issuer s,
       x509_Subject = sm2_Subject s,
       x509_NotBefore = sm2_NotBefore s,
       x509_NotAfter = sm2_NotAfter s,
       x509_KeyUsage = x509_KeyUsage_of_sm2 (sm2_KeyUsage s),
       x509_Extensions = sm2_Extensions s,
       x509_ExtraExtensions = sm2_ExtraExtensions s,
       x509_UnhandledCriticalExtensions = sm2_UnhandledCriticalExtensions s,
       x509_ExtKeyUsage =
         (if elems (sm2_ExtKeyUsage s) = [] then None
          else Some (map x509_ExtKeyUsage_of_sm2 (elems (sm2_ExtKeyUsage s)))),
       x509_UnknownExtKeyUsage = sm2_UnknownExtKeyUsage s,
       x509_BasicConstraintsValid = sm2_BasicConstraintsValid s,
       x509_IsCA = sm2_IsCA s,
       x509_MaxPathLen = sm2_MaxPathLen s,
       x509_MaxPathLenZero = sm2_MaxPathLenZero s,
       x509_SubjectKeyId = sm2_SubjectKeyId s,
       x509_AuthorityKeyId = sm2_AuthorityKeyId s,
       x509_OCSPServer = sm2_OCSPServer s,
       x509_IssuingCertificateURL = sm2_IssuingCertificateURL s,
       x509_DNSNames = sm2_DNSNames s,
       x509_EmailAddresses = sm2_EmailAddresses s,
       x509_IPAddresses = sm2_IPAddresses s,
       x509_URIs = None,
       x509_PermittedDNSDomainsCritical = sm2_PermittedDNSDomainsCritical s,
       x509_PermittedDNSDomains = sm2_PermittedDNSDomains s,
       x509_ExcludedDNSDomains = None,
       x509_PermittedIPRanges = None,
       x509_ExcludedIPRanges = None,
       x509_PermittedEmailAddresses = None,
       x509_ExcludedEmailAddresses = None,
       x509_PermittedURIDomains = None,
       x509_ExcludedURIDomains = None,
       x509_CRLDistributionPoints = sm2_CRLDistributionPoints s,
       x509_PolicyIdentifiers = sm2_PolicyIdentifiers s
     \<rparr>"
  by (simp add: ParseSm2Certificate2X509_def append_ExtKeyUsage_x509_eq elems_def)

lemma ParseX509Certificate2Sm2_eq:
  "ParseX509Certificate2Sm2 c =
     \<lparr>
       sm2_Raw = x509_Raw c,
       sm2_RawTBSCertificate = x509_RawTBSCertificate c,
       sm2_RawSubjectPublicKeyInfo = x509_RawSubjectPublicKeyInfo c,
       sm2_RawSubject = x509_RawSubject c,
       sm2_RawIssuer = x509_RawIssuer c,
       sm2_Signature = x509_Signature c,
       sm2_SignatureAlgorithm = sm2_SignatureAlgorithm_of_x509 (x509_SignatureAlgorithm c),
       sm2_PublicKeyAlgorithm = sm2_PublicKeyAlgorithm_of_x509 (x509_PublicKeyAlgorithm c),
       sm2_PublicKey = x509_PublicKey c,
       sm2_Version = x509_Version c,
       sm2_SerialNumber = x509_SerialNumber c,
       sm2_Issuer = x509_Issuer c,
       sm2_Subject = x509_Subject c,
       sm2_NotBefore = x509_NotBefore c,
       sm2_NotAfter = x509_NotAfter c,
       sm2_KeyUsage = sm2_KeyUsage_of_x509 (x509_KeyUsage c),
       sm2_Extensions = x509_Extensions c,
       sm2_ExtraExtensions = x509_ExtraExtensions c,
       sm2_UnhandledCriticalExtensions = x509_UnhandledCriticalExtensions c,
       sm2_ExtKeyUsage =
         (if elems (x509_ExtKeyUsage c) = [] then None
          else Some (map sm2_ExtKeyUsage_of_x509 (elems (x509_ExtKeyUsage c)))),
       sm2_UnknownExtKeyUsage = x509_UnknownExtKeyUsage c,
       sm2_BasicConstraintsValid = x509_BasicConstraintsValid c,
       sm2_IsCA = x509_IsCA c,
       sm2_MaxPathLen = x509_MaxPathLen c,
       sm2_MaxPathLenZero = x509_MaxPathLenZero c,
       sm2_SubjectKeyId = x509_SubjectKeyId c,
       sm2_AuthorityKeyId = x509_AuthorityKeyId c,
       sm2_OCSPServer = x509_OCSPServer c,
       sm2_IssuingCertificateURL = x509_IssuingCertificateURL c,
       sm2_DNSNames = x509_DNSNames c,
       sm2_EmailAddresses = x509_EmailAddresses c,
       sm2_IPAddresses = x509_IPAddresses c,
       sm2_PermittedDNSDomainsCritical = x509_PermittedDNSDomainsCritical c,
       sm2_PermittedDNSDomains = x509_PermittedDNSDomains c,
       sm2_CRLDistributionPoints = x509_CRLDistributionPoints c,
       sm2_PolicyIdentifiers = x509_PolicyIdentifiers c
     \<rparr>"
  by (simp add: ParseX509Certificate2Sm2_def append_ExtKeyUsage_sm2_eq elems_def)

text \<open>Each conversion between the two tag namespaces is undone by the opposite one.\<close>

lemma x509_SignatureAlgorithm_round_trip: "x509_SignatureAlgorithm_of_sm2 (sm2_SignatureAlgorithm_of_x509 a) = a"
  by (cases a) simp

lemma sm2_SignatureAlgorithm_round_trip: "sm2_SignatureAlgorithm_of_x509 (x509_SignatureAlgorithm_of_sm2 b) = b"
  by (cases b) simp

lemma x509_PublicKeyAlgorithm_round_trip: "x509_PublicKeyAlgorithm_of_sm2 (sm2_PublicKeyAlgorithm_of_x509 a) = a"
  by (cases a) simp

lemma sm2_PublicKeyAlgorithm_round_trip: "sm2_PublicKeyAlgorithm_of_x509 (x509_PublicKeyAlgorithm_of_sm2 b) = b"
  by (cases b) simp

lemma x509_KeyUsage_round_trip: "x509_KeyUsage_of_sm2 (sm2_KeyUsage_of_x509 a) = a"
  by (cases a) simp

lemma sm2_KeyUsage_round_trip: "sm2_KeyUsage_of_x509 (x509_KeyUsage_of_sm2 b) = b"
  by (cases b) simp

lemma x509_ExtKeyUsage_round_trip: "x509_ExtKeyUsage_of_sm2 (sm2_ExtKeyUsage_of_x509 a) = a"
  by (cases a) simp

lemma sm2_ExtKeyUsage_round_trip: "sm2_ExtKeyUsage_of_x509 (x509_ExtKeyUsage_of_sm2 b) = b"
  by (cases b) simp

lemma map_x509_ExtKeyUsage_round_trip:
  "map (x509_ExtKeyUsage_of_sm2 \<circ> sm2_ExtKeyUsage_of_x509) us = us"
  by (induction us) (simp_all add: x509_ExtKeyUsage_round_trip)

lemma map_sm2_ExtKeyUsage_round_trip:
  "map (sm2_ExtKeyUsage_of_x509 \<circ> x509_ExtKeyUsage_of_sm2) us = us"
  by (induction us) (simp_all add: sm2_ExtKeyUsage_round_trip)

lemmas tag_round_trips =
  x509_SignatureAlgorithm_round_trip sm2_SignatureAlgorithm_round_trip
  x509_PublicKeyAlgorithm_round_trip sm2_PublicKeyAlgorithm_round_trip
  x509_KeyUsage_round_trip sm2_KeyUsage_round_trip
  x509_ExtKeyUsage_round_trip sm2_ExtKeyUsage_round_trip
  map_x509_ExtKeyUsage_round_trip map_sm2_ExtKeyUsage_round_trip

text \<open>
  A slice that went through both loops: the nil slice and the empty slice come back
  as the nil slice, every other slice comes back as it was.
\<close>

lemma ExtKeyUsage_sm2_twice:
  "(if elems (if elems u = [] then None else Some (map x509_ExtKeyUsage_of_sm2 (elems u))) = [] then None
    else Some (map sm2_ExtKeyUsage_of_x509
           (elems (if elems u = [] then None else Some (map x509_ExtKeyUsage_of_sm2 (elems u))))))
   = (if elems u = [] then None else u)"
  by (cases u) (simp_all add: elems_def tag_round_trips)

lemma ExtKeyUsage_x509_twice:
  "(if elems (if elems u = [] then None else Some (map sm2_ExtKeyUsage_of_x509 (elems u))) = [] then None
    else Some (map x509_ExtKeyUsage_of_sm2
           (elems (if elems u = [] then None else Some (map sm2_ExtKeyUsage_of_x509 (elems u))))))
   = (if elems u = [] then None else u)"
  by (cases u) (simp_all add: elems_def tag_round_trips)

lemma nil_or_kept: "((if elems u = [] then None else u) = u) = (u \<noteq> Some [])"
  by (cases u) (auto simp: elems_def)

lemma sm2_ExtKeyUsage_update_eq: "(s\<lparr>sm2_ExtKeyUsage := v\<rparr> = s) = (v = sm2_ExtKeyUsage s)"
  by (cases s) simp

lemma x509_updates_eq:
  "(c\<lparr>x509_ExtKeyUsage := v,
            x509_URIs := None,
            x509_ExcludedDNSDomains := None,
            x509_PermittedIPRanges := None,
            x509_ExcludedIPRanges := None,
            x509_PermittedEmailAddresses := None,
            x509_ExcludedEmailAddresses := None,
            x509_PermittedURIDomains := None,
            x509_ExcludedURIDomains := None\<rparr> = c)
   = (v = x509_ExtKeyUsage c
            \<and> x509_URIs c = None
            \<and> x509_ExcludedDNSDomains c = None
            \<and> x509_PermittedIPRanges c = None
            \<and> x509_ExcludedIPRanges c = None
            \<and> x509_PermittedEmailAddresses c = None
            \<and> x509_ExcludedEmailAddresses c = None
            \<and> x509_PermittedURIDomains c = None
            \<and> x509_ExcludedURIDomains c = None)"
  by (cases c) auto

lemma ParseX509_ParseSm2:
  "ParseX509Certificate2Sm2 (ParseSm2Certificate2X509 s)
       = s\<lparr>sm2_ExtKeyUsage := (if elems (sm2_ExtKeyUsage s) = [] then None else sm2_ExtKeyUsage s)\<rparr>"
  by (cases s)
    (simp only: ParseSm2Certificate2X509_eq ParseX509Certificate2Sm2_eq ExtKeyUsage_sm2_twice
       tag_round_trips sm2_Certificate.simps x509_Certificate.simps)

lemma ParseX509_ParseSm2_iff:
  "(ParseX509Certificate2Sm2 (ParseSm2Certificate2X509 s) = s) = (sm2_ExtKeyUsage s \<noteq> Some [])"
  unfolding ParseX509_ParseSm2 sm2_ExtKeyUsage_update_eq by (rule nil_or_kept)

lemma ParseSm2_ParseX509:
  "ParseSm2Certificate2X509 (ParseX509Certificate2Sm2 c)
       = c\<lparr>x509_ExtKeyUsage := (if elems (x509_ExtKeyUsage c) = [] then None else x509_ExtKeyUsage c),
            x509_URIs := None,
            x509_ExcludedDNSDomains := None,
            x509_PermittedIPRanges := None,
            x509_ExcludedIPRanges := None,
            x509_PermittedEmailAddresses := None,
            x509_ExcludedEmailAddresses := None,
            x509_PermittedURIDomains := None,
            x509_ExcludedURIDomains := None\<rparr>"
  by (cases c)
    (simp only: ParseSm2Certificate2X509_eq ParseX509Certificate2Sm2_eq ExtKeyUsage_x509_twice
       tag_round_trips sm2_Certificate.simps x509_Certificate.simps)

lemma ParseSm2_ParseX509_iff:
  "(ParseSm2Certificate2X509 (ParseX509Certificate2Sm2 c) = c)
       = (x509_ExtKeyUsage c \<noteq> Some []
            \<and> x509_URIs c = None
            \<and> x509_ExcludedDNSDomains c = None
            \<and> x509_PermittedIPRanges c = None
            \<and> x509_ExcludedIPRanges c = None
            \<and> x509_PermittedEmailAddresses c = None
            \<and> x509_ExcludedEmailAddresses c = None
            \<and> x509_PermittedURIDomains c = None
            \<and> x509_ExcludedURIDomains c = None)"
  unfolding ParseSm2_ParseX509 x509_updates_eq nil_or_kept by (rule refl)

lemma tag_conversions_bij:
  "bij x509_SignatureAlgorithm_of_sm2 \<and> bij sm2_SignatureAlgorithm_of_x509
   \<and> bij x509_PublicKeyAlgorithm_of_sm2 \<and> bij sm2_PublicKeyAlgorithm_of_x509
   \<and> bij x509_KeyUsage_of_sm2 \<and> bij sm2_KeyUsage_of_x509
   \<and> bij x509_ExtKeyUsage_of_sm2 \<and> bij sm2_ExtKeyUsage_of_x509"
  by (intro conjI;
      rule bij_betw_byWitness [where f' = sm2_SignatureAlgorithm_of_x509]
        bij_betw_byWitness [where f' = x509_SignatureAlgorithm_of_sm2]
        bij_betw_byWitness [where f' = sm2_PublicKeyAlgorithm_of_x509]
        bij_betw_byWitness [where f' = x509_PublicKeyAlgorithm_of_sm2]
        bij_betw_byWitness [where f' = sm2_KeyUsage_of_x509]
        bij_betw_byWitness [where f' = x509_KeyUsage_of_sm2]
        bij_betw_byWitness [where f' = sm2_ExtKeyUsage_of_x509]
        bij_betw_byWitness [where f' = x509_ExtKeyUsage_of_sm2];
      simp add: tag_round_trips)

text \<open>
  Claim C1 says that the conversion to the other representation and back gives the
  certificate itself, from either side, and that no field is dropped or defaulted. A
  standard certificate with a URI among its subject alternative names comes back
  without it, and a national certificate whose extended key usages are the empty slice
  comes back with the nil slice.
\<close>

theorem round_trip_drops_fields:
  "x509_URIs (example_x509_Certificate (Some [''spiffe://example.org/ca'']))
       = Some [''spiffe://example.org/ca'']
   \<and> x509_URIs (ParseSm2Certificate2X509 (ParseX509Certificate2Sm2
          (example_x509_Certificate (Some [''spiffe://example.org/ca''])))) = None
   \<and> ParseSm2Certificate2X509 (ParseX509Certificate2Sm2
          (example_x509_Certificate (Some [''spiffe://example.org/ca''])))
       \<noteq> example_x509_Certificate (Some [''spiffe://example.org/ca''])
   \<and> sm2_ExtKeyUsage ((example_sm2_Certificate (Sm2PublicKey P256Sm2 1 2))\<lparr>sm2_ExtKeyUsage := Some []\<rparr>)
       = Some []
   \<and> sm2_ExtKeyUsage (ParseX509Certificate2Sm2 (ParseSm2Certificate2X509
          ((example_sm2_Certificate (Sm2PublicKey P256Sm2 1 2))\<lparr>sm2_ExtKeyUsage := Some []\<rparr>))) = None
   \<and> ParseX509Certificate2Sm2 (ParseSm2Certificate2X509
          ((example_sm2_Certificate (Sm2PublicKey P256Sm2 1 2))\<lparr>sm2_ExtKeyUsage := Some []\<rparr>))
       \<noteq> (example_sm2_Certificate (Sm2PublicKey P256Sm2 1 2))\<lparr>sm2_ExtKeyUsage := Some []\<rparr>"
proof -
  let ?c = "example_x509_Certificate (Some [''spiffe://example.org/ca''])"
  let ?s = "(example_sm2_Certificate (Sm2PublicKey P256Sm2 1 2))\<lparr>sm2_ExtKeyUsage := Some []\<rparr>"
  have u: "x509_URIs ?c = Some [''spiffe://example.org/ca'']"
    by (simp add: example_x509_Certificate_def)
  have u': "x509_URIs (ParseSm2Certificate2X509 (ParseX509Certificate2Sm2 ?c)) = None"
    by (simp add: ParseSm2_ParseX509)
  have e: "sm2_ExtKeyUsage ?s = Some []"
    by simp
  have e': "sm2_ExtKeyUsage (ParseX509Certificate2Sm2 (ParseSm2Certificate2X509 ?s)) = None"
    by (simp add: ParseX509_ParseSm2 elems_def)
  from u u' have n1: "ParseSm2Certificate2X509 (ParseX509Certificate2Sm2 ?c) \<noteq> ?c"
    by (metis option.distinct(1))
  from e e' have n2: "ParseX509Certificate2Sm2 (ParseSm2Certificate2X509 ?s) \<noteq> ?s"
    by (metis option.distinct(1))
  from u u' n1 e e' n2 show ?thesis by blast
qed

text \<open>
  Claim C1, amended. Each converter copies every field that both representations have
  to the field of the same name: the tags of the signature algorithm, the public-key
  algorithm and the key usage are reinterpreted by conversions that are bijections
  between the two namespaces, the extended key usages are reinterpreted element by
  element in their order, with the nil slice as the result when there are none, and
  every other field is copied as it is. The standard certificate made from a national
  one has the nil slice in each of the eight fields that the national representation
  lacks. A national certificate converted to the standard representation and back is the
  certificate itself, except that extended key usages that are the empty slice come back
  as the nil slice. A standard certificate converted to the national representation and
  back is the certificate itself, except for the same change of the extended key usages
  and for the eight fields that the national representation lacks, which come back as
  nil slices; so it comes back equal exactly when its extended key usages are not the
  empty slice and these eight fields are nil.
\<close>

theorem certificate_conversion:
  "(x509_Raw (ParseSm2Certificate2X509 s) = sm2_Raw s
    \<and> x509_RawTBSCertificate (ParseSm2Certificate2X509 s) = sm2_RawTBSCertificate s
    \<and> x509_RawSubjectPublicKeyInfo (ParseSm2Certificate2X509 s) = sm2_RawSubjectPublicKeyInfo s
    \<and> x509_RawSubject (ParseSm2Certificate2X509 s) = sm2_RawSubject s
    \<and> x509_RawIssuer (ParseSm2Certificate2X509 s) = sm2_RawIssuer s
    \<and> x509_Signature (ParseSm2Certificate2X509 s) = sm2_Signature s
    \<and> x509_SignatureAlgorithm (ParseSm2Certificate2X509 s) = x509_SignatureAlgorithm_of_sm2 (sm2_SignatureAlgorithm s)
    \<and> x509_PublicKeyAlgorithm (ParseSm2Certificate2X509 s) = x509_PublicKeyAlgorithm_of_sm2 (sm2_PublicKeyAlgorithm s)
    \<and> x509_PublicKey (ParseSm2Certificate2X509 s) = sm2_PublicKey s
    \<and> x509_Version (ParseSm2Certificate2X509 s) = sm2_Version s
    \<and> x509_SerialNumber (ParseSm2Certificate2X509 s) = sm2_SerialNumber s
    \<and> x509_Issuer (ParseSm2Certificate2X509 s) = sm2_Issuer s
    \<and> x509_Subject (ParseSm2Certificate2X509 s) = sm2_Subject s
    \<and> x509_NotBefore (ParseSm2Certificate2X509 s) = sm2_NotBefore s
    \<and> x509_NotAfter (ParseSm2Certificate2X509 s) = sm2_NotAfter s
    \<and> x509_KeyUsage (ParseSm2Certificate2X509 s) = x509_KeyUsage_of_sm2 (sm2_KeyUsage s)
    \<and> x509_Extensions (ParseSm2Certificate2X509 s) = sm2_Extensions s
    \<and> x509_ExtraExtensions (ParseSm2Certificate2X509 s) = sm2_ExtraExtensions s
    \<and> x509_UnhandledCriticalExtensions (ParseSm2Certificate2X509 s) = sm2_UnhandledCriticalExtensions s
    \<and> x509_ExtKeyUsage (ParseSm2Certificate2X509 s)
        = (if elems (sm2_ExtKeyUsage s) = [] then None
           else Some (map x509_ExtKeyUsage_of_sm2 (elems (sm2_ExtKeyUsage s))))
    \<and> x509_UnknownExtKeyUsage (ParseSm2Certificate2X509 s) = sm2_UnknownExtKeyUsage s
    \<and> x509_BasicConstraintsValid (ParseSm2Certificate2X509 s) = sm2_BasicConstraintsValid s
    \<and> x509_IsCA (ParseSm2Certificate2X509 s) = sm2_IsCA s
    \<and> x509_MaxPathLen (ParseSm2Certificate2X509 s) = sm2_MaxPathLen s
    \<and> x509_MaxPathLenZero (ParseSm2Certificate2X509 s) = sm2_MaxPathLenZero s
    \<and> x509_SubjectKeyId (ParseSm2Certificate2X509 s) = sm2_SubjectKeyId s
    \<and> x509_AuthorityKeyId (ParseSm2Certificate2X509 s) = sm2_AuthorityKeyId s
    \<and> x509_OCSPServer (ParseSm2Certificate2X509 s) = sm2_OCSPServer s
    \<and> x509_IssuingCertificateURL (ParseSm2Certificate2X509 s) = sm2_IssuingCertificateURL s
    \<and> x509_DNSNames (ParseSm2Certificate2X509 s) = sm2_DNSNames s
    \<and> x509_EmailAddresses (ParseSm2Certificate2X509 s) = sm2_EmailAddresses s
    \<and> x509_IPAddresses (ParseSm2Certificate2X509 s) = sm2_IPAddresses s
    \<and> x509_URIs (ParseSm2Certificate2X509 s) = None
    \<and> x509_PermittedDNSDomainsCritical (ParseSm2Certificate2X509 s) = sm2_PermittedDNSDomainsCritical s
    \<and> x509_PermittedDNSDomains (ParseSm2Certificate2X509 s) = sm2_PermittedDNSDomains s
    \<and> x509_ExcludedDNSDomains (ParseSm2Certificate2X509 s) = None
    \<and> x509_PermittedIPRanges (ParseSm2Certificate2X509 s) = None
    \<and> x509_ExcludedIPRanges (ParseSm2Certificate2X509 s) = None
    \<and> x509_PermittedEmailAddresses (ParseSm2Certificate2X509 s) = None
    \<and> x509_ExcludedEmailAddresses (ParseSm2Certificate2X509 s) = None
    \<and> x509_PermittedURIDomains (ParseSm2Certificate2X509 s) = None
    \<and> x509_ExcludedURIDomains (ParseSm2Certificate2X509 s) = None
    \<and> x509_CRLDistributionPoints (ParseSm2Certificate2X509 s) = sm2_CRLDistributionPoints s
    \<and> x509_PolicyIdentifiers (ParseSm2Certificate2X509 s) = sm2_PolicyIdentifiers s)
   \<and> (sm2_Raw (ParseX509Certificate2Sm2 c) = x509_Raw c
    \<and> sm2_RawTBSCertificate (ParseX509Certificate2Sm2 c) = x509_RawTBSCertificate c
    \<and> sm2_RawSubjectPublicKeyInfo (ParseX509Certificate2Sm2 c) = x509_RawSubjectPublicKeyInfo c
    \<and> sm2_RawSubject (ParseX509Certificate2Sm2 c) = x509_RawSubject c
    \<and> sm2_RawIssuer (ParseX509Certificate2Sm2 c) = x509_RawIssuer c
    \<and> sm2_Signature (ParseX509Certificate2Sm2 c) = x509_Signature c
    \<and> sm2_SignatureAlgorithm (ParseX509Certificate2Sm2 c) = sm2_SignatureAlgorithm_of_x509 (x509_SignatureAlgorithm c)
    \<and> sm2_PublicKeyAlgorithm (ParseX509Certificate2Sm2 c) = sm2_PublicKeyAlgorithm_of_x509 (x509_PublicKeyAlgorithm c)
    \<and> sm2_PublicKey (ParseX509Certificate2Sm2 c) = x509_PublicKey c
    \<and> sm2_Version (ParseX509Certificate2Sm2 c) = x509_Version c
    \<and> sm2_SerialNumber (ParseX509Certificate2Sm2 c) = x509_SerialNumber c
    \<and> sm2_Issuer (ParseX509Certificate2Sm2 c) = x509_Issuer c
    \<and> sm2_Subject (ParseX509Certificate2Sm2 c) = x509_Subject c
    \<and> sm2_NotBefore (ParseX509Certificate2Sm2 c) = x509_NotBefore c
    \<and> sm2_NotAfter (ParseX509Certificate2Sm2 c) = x509_NotAfter c
    \<and> sm2_KeyUsage (ParseX509Certificate2Sm2 c) = sm2_KeyUsage_of_x509 (x509_KeyUsage c)
    \<and> sm2_Extensions (ParseX509Certificate2Sm2 c) = x509_Extensions c
    \<and> sm2_ExtraExtensions (ParseX509Certificate2Sm2 c) = x509_ExtraExtensions c
    \<and> sm2_UnhandledCriticalExtensions (ParseX509Certificate2Sm2 c) = x509_UnhandledCriticalExtensions c
    \<and> sm2_ExtKeyUsage (ParseX509Certificate2Sm2 c)
        = (if elems (x509_ExtKeyUsage c) = [] then None
           else Some (map sm2_ExtKeyUsage_of_x509 (elems (x509_ExtKeyUsage c))))
    \<and> sm2_UnknownExtKeyUsage (ParseX509Certificate2Sm2 c) = x509_UnknownExtKeyUsage c
    \<and> sm2_BasicConstraintsValid (ParseX509Certificate2Sm2 c) = x509_BasicConstraintsValid c
    \<and> sm2_IsCA (ParseX509Certificate2Sm2 c) = x509_IsCA c
    \<and> sm2_MaxPathLen (ParseX509Certificate2Sm2 c) = x509_MaxPathLen c
    \<and> sm2_MaxPathLenZero (ParseX509Certificate2Sm2 c) = x509_MaxPathLenZero c
    \<and> sm2_SubjectKeyId (ParseX509Certificate2Sm2 c) = x509_SubjectKeyId c
    \<and> sm2_AuthorityKeyId (ParseX509Certificate2Sm2 c) = x509_AuthorityKeyId c
    \<and> sm2_OCSPServer (ParseX509Certificate2Sm2 c) = x509_OCSPServer c
    \<and> sm2_IssuingCertificateURL (ParseX509Certificate2Sm2 c) = x509_IssuingCertificateURL c
    \<and> sm2_DNSNames (ParseX509Certificate2Sm2 c) = x509_DNSNames c
    \<and> sm2_EmailAddresses (ParseX509Certificate2Sm2 c) = x509_EmailAddresses c
    \<and> sm2_IPAddresses (ParseX509Certificate2Sm2 c) = x509_IPAddresses c
    \<and> sm2_PermittedDNSDomainsCritical (ParseX509Certificate2Sm2 c) = x509_PermittedDNSDomainsCritical c
    \<and> sm2_PermittedDNSDomains (ParseX509Certificate2Sm2 c) = x509_PermittedDNSDomains c
    \<and> sm2_CRLDistributionPoints (ParseX509Certificate2Sm2 c) = x509_CRLDistributionPoints c
    \<and> sm2_PolicyIdentifiers (ParseX509Certificate2Sm2 c) = x509_PolicyIdentifiers c)
   \<and> ParseX509Certificate2Sm2 (ParseSm2Certificate2X509 s)
       = s\<lparr>sm2_ExtKeyUsage := (if elems (sm2_ExtKeyUsage s) = [] then None else sm2_ExtKeyUsage s)\<rparr>
   \<and> (ParseX509Certificate2Sm2 (ParseSm2Certificate2X509 s) = s) = (sm2_ExtKeyUsage s \<noteq> Some [])
   \<and> ParseSm2Certificate2X509 (ParseX509Certificate2Sm2 c)
       = c\<lparr>x509_ExtKeyUsage := (if elems (x509_ExtKeyUsage c) = [] then None else x509_ExtKeyUsage c),
            x509_URIs := None,
            x509_ExcludedDNSDomains := None,
            x509_PermittedIPRanges := None,
            x509_ExcludedIPRanges := None,
            x509_PermittedEmailAddresses := None,
            x509_ExcludedEmailAddresses := None,
            x509_PermittedURIDomains := None,
            x509_ExcludedURIDomains := None\<rparr>
   \<and> (ParseSm2Certificate2X509 (ParseX509Certificate2Sm2 c) = c)
       = (x509_ExtKeyUsage c \<noteq> Some []
            \<and> x509_URIs c = None
            \<and> x509_ExcludedDNSDomains c = None
            \<and> x509_PermittedIPRanges c = None
            \<and> x509_ExcludedIPRanges c = None
            \<and> x509_PermittedEmailAddresses c = None
            \<and> x509_ExcludedEmailAddresses c = None
            \<and> x509_PermittedURIDomains c = None
            \<and> x509_ExcludedURIDomains c = None)
   \<and> bij x509_SignatureAlgorithm_of_sm2 \<and> bij sm2_SignatureAlgorithm_of_x509
   \<and> bij x509_PublicKeyAlgorithm_of_sm2 \<and> bij sm2_PublicKeyAlgorithm_of_x509
   \<and> bij x509_KeyUsage_of_sm2 \<and> bij sm2_KeyUsage_of_x509
   \<and> bij x509_ExtKeyUsage_of_sm2 \<and> bij sm2_ExtKeyUsage_of_x509"
proof -
  have to_x509: "x509_Raw (ParseSm2Certificate2X509 s) = sm2_Raw s
      \<and> x509_RawTBSCertificate (ParseSm2Certificate2X509 s) = sm2_RawTBSCertificate s
      \<and> x509_RawSubjectPublicKeyInfo (ParseSm2Certificate2X509 s) = sm2_RawSubjectPublicKeyInfo s
      \<and> x509_RawSubject (ParseSm2Certificate2X509 s) = sm2_RawSubject s
      \<and> x509_RawIssuer (ParseSm2Certificate2X509 s) = sm2_RawIssuer s
      \<and> x509_Signature (ParseSm2Certificate2X509 s) = sm2_Signature s
      \<and> x509_SignatureAlgorithm (ParseSm2Certificate2X509 s) = x509_SignatureAlgorithm_of_sm2 (sm2_SignatureAlgorithm s)
      \<and> x509_PublicKeyAlgorithm (ParseSm2Certificate2X509 s) = x509_PublicKeyAlgorithm_of_sm2 (sm2_PublicKeyAlgorithm s)
      \<and> x509_PublicKey (ParseSm2Certificate2X509 s) = sm2_PublicKey s
      \<and> x509_Version (ParseSm2Certificate2X509 s) = sm2_Version s
      \<and> x509_SerialNumber (ParseSm2Certificate2X509 s) = sm2_SerialNumber s
      \<and> x509_Issuer (ParseSm2Certificate2X509 s) = sm2_Issuer s
      \<and> x509_Subject (ParseSm2Certificate2X509 s) = sm2_Subject s
      \<and> x509_NotBefore (ParseSm2Certificate2X509 s) = sm2_NotBefore s
      \<and> x509_NotAfter (ParseSm2Certificate2X509 s) = sm2_NotAfter s
      \<and> x509_KeyUsage (ParseSm2Certificate2X509 s) = x509_KeyUsage_of_sm2 (sm2_KeyUsage s)
      \<and> x509_Extensions (ParseSm2Certificate2X509 s) = sm2_Extensions s
      \<and> x509_ExtraExtensions (ParseSm2Certificate2X509 s) = sm2_ExtraExtensions s
      \<and> x509_UnhandledCriticalExtensions (ParseSm2Certificate2X509 s) = sm2_UnhandledCriticalExtensions s
      \<and> x509_ExtKeyUsage (ParseSm2Certificate2X509 s)
          = (if elems (sm2_ExtKeyUsage s) = [] then None
             else Some (map x509_ExtKeyUsage_of_sm2 (elems (sm2_ExtKeyUsage s))))
      \<and> x509_UnknownExtKeyUsage (ParseSm2Certificate2X509 s) = sm2_UnknownExtKeyUsage s
      \<and> x509_BasicConstraintsValid (ParseSm2Certificate2X509 s) = sm2_BasicConstraintsValid s
      \<and> x509_IsCA (ParseSm2Certificate2X509 s) = sm2_IsCA s
      \<and> x509_MaxPathLen (ParseSm2Certificate2X509 s) = sm2_MaxPathLen s
      \<and> x509_MaxPathLenZero (ParseSm2Certificate2X509 s) = sm2_MaxPathLenZero s
      \<and> x509_SubjectKeyId (ParseSm2Certificate2X509 s) = sm2_SubjectKeyId s
      \<and> x509_AuthorityKeyId (ParseSm2Certificate2X509 s) = sm2_AuthorityKeyId s
      \<and> x509_OCSPServer (ParseSm2Certificate2X509 s) = sm2_OCSPServer s
      \<and> x509_IssuingCertificateURL (ParseSm2Certificate2X509 s) = sm2_IssuingCertificateURL s
      \<and> x509_DNSNames (ParseSm2Certificate2X509 s) = sm2_DNSNames s
      \<and> x509_EmailAddresses (ParseSm2Certificate2X509 s) = sm2_EmailAddresses s
      \<and> x509_IPAddresses (ParseSm2Certificate2X509 s) = sm2_IPAddresses s
      \<and> x509_URIs (ParseSm2Certificate2X509 s) = None
      \<and> x509_PermittedDNSDomainsCritical (ParseSm2Certificate2X509 s) = sm2_PermittedDNSDomainsCritical s
      \<and> x509_PermittedDNSDomains (ParseSm2Certificate2X509 s) = sm2_PermittedDNSDomains s
      \<and> x509_ExcludedDNSDomains (ParseSm2Certificate2X509 s) = None
      \<and> x509_PermittedIPRanges (ParseSm2Certificate2X509 s) = None
      \<and> x509_ExcludedIPRanges (ParseSm2Certificate2X509 s) = None
      \<and> x509_PermittedEmailAddresses (ParseSm2Certificate2X509 s) = None
      \<and> x509_ExcludedEmailAddresses (ParseSm2Certificate2X509 s) = None
      \<and> x509_PermittedURIDomains (ParseSm2Certificate2X509 s) = None
      \<and> x509_ExcludedURIDomains (ParseSm2Certificate2X509 s) = None
      \<and> x509_CRLDistributionPoints (ParseSm2Certificate2X509 s) = sm2_CRLDistributionPoints s
      \<and> x509_PolicyIdentifiers (ParseSm2Certificate2X509 s) = sm2_PolicyIdentifiers s"
    unfolding ParseSm2Certificate2X509_eq by simp
  have to_sm2: "sm2_Raw (ParseX509Certificate2Sm2 c) = x509_Raw c
      \<and> sm2_RawTBSCertificate (ParseX509Certificate2Sm2 c) = x509_RawTBSCertificate c
      \<and> sm2_RawSubjectPublicKeyInfo (ParseX509Certificate2Sm2 c) = x509_RawSubjectPublicKeyInfo c
      \<and> sm2_RawSubject (ParseX509Certificate2Sm2 c) = x509_RawSubject c
      \<and> sm2_RawIssuer (ParseX509Certificate2Sm2 c) = x509_RawIssuer c
      \<and> sm2_Signature (ParseX509Certificate2Sm2 c) = x509_Signature c
      \<and> sm2_SignatureAlgorithm (ParseX509Certificate2Sm2 c) = sm2_SignatureAlgorithm_of_x509 (x509_SignatureAlgorithm c)
      \<and> sm2_PublicKeyAlgorithm (ParseX509Certificate2Sm2 c) = sm2_PublicKeyAlgorithm_of_x509 (x509_PublicKeyAlgorithm c)
      \<and> sm2_PublicKey (ParseX509Certificate2Sm2 c) = x509_PublicKey c
      \<and> sm2_Version (ParseX509Certificate2Sm2 c) = x509_Version c
      \<and> sm2_SerialNumber (ParseX509Certificate2Sm2 c) = x509_SerialNumber c
      \<and> sm2_Issuer (ParseX509Certificate2Sm2 c) = x509_Issuer c
      \<and> sm2_Subject (ParseX509Certificate2Sm2 c) = x509_Subject c
      \<and> sm2_NotBefore (ParseX509Certificate2Sm2 c) = x509_NotBefore c
      \<and> sm2_NotAfter (ParseX509Certificate2Sm2 c) = x509_NotAfter c
      \<and> sm2_KeyUsage (ParseX509Certificate2Sm2 c) = sm2_KeyUsage_of_x509 (x509_KeyUsage c)
      \<and> sm2_Extensions (ParseX509Certificate2Sm2 c) = x509_Extensions c
      \<and> sm2_ExtraExtensions (ParseX509Certificate2Sm2 c) = x509_ExtraExtensions c
      \<and> sm2_UnhandledCriticalExtensions (ParseX509Certificate2Sm2 c) = x509_UnhandledCriticalExtensions c
      \<and> sm2_ExtKeyUsage (ParseX509Certificate2Sm2 c)
          = (if elems (x509_ExtKeyUsage c) = [] then None
             else Some (map sm2_ExtKeyUsage_of_x509 (elems (x509_ExtKeyUsage c))))
      \<and> sm2_UnknownExtKeyUsage (ParseX509Certificate2Sm2 c) = x509_UnknownExtKeyUsage c
      \<and> sm2_BasicConstraintsValid (ParseX509Certificate2Sm2 c) = x509_BasicConstraintsValid c
      \<and> sm2_IsCA (ParseX509Certificate2Sm2 c) = x509_IsCA c
      \<and> sm2_MaxPathLen (ParseX509Certificate2Sm2 c) = x509_MaxPathLen c
      \<and> sm2_MaxPathLenZero (ParseX509Certificate2Sm2 c) = x509_MaxPathLenZero c
      \<and> sm2_SubjectKeyId (ParseX509Certificate2Sm2 c) = x509_SubjectKeyId c
      \<and> sm2_AuthorityKeyId (ParseX509Certificate2Sm2 c) = x509_AuthorityKeyId c
      \<and> sm2_OCSPServer (ParseX509Certificate2Sm2 c) = x509_OCSPServer c
      \<and> sm2_IssuingCertificateURL (ParseX509Certificate2Sm2 c) = x509_IssuingCertificateURL c
      \<and> sm2_DNSNames (ParseX509Certificate2Sm2 c) = x509_DNSNames c
      \<and> sm2_EmailAddresses (ParseX509Certificate2Sm2 c) = x509_EmailAddresses c
      \<and> sm2_IPAddresses (ParseX509Certificate2Sm2 c) = x509_IPAddresses c
      \<and> sm2_PermittedDNSDomainsCritical (ParseX509Certificate2Sm2 c) = x509_PermittedDNSDomainsCritical c
      \<and> sm2_PermittedDNSDomains (ParseX509Certificate2Sm2 c) = x509_PermittedDNSDomains c
      \<and> sm2_CRLDistributionPoints (ParseX509Certificate2Sm2 c) = x509_CRLDistributionPoints c
      \<and> sm2_PolicyIdentifiers (ParseX509Certificate2Sm2 c) = x509_PolicyIdentifiers c"
    unfolding ParseX509Certificate2Sm2_eq by simp
  show ?thesis
    using to_x509 to_sm2 ParseX509_ParseSm2 [of s] ParseX509_ParseSm2_iff [of s]
      ParseSm2_ParseX509 [of c] ParseSm2_ParseX509_iff [of c] tag_conversions_bij
    by blast
qed

theorem certificate_conversion_witness:
  "sm2_ExtKeyUsage (example_sm2_Certificate (Sm2PublicKey P256Sm2 1 2)) = Some [Sm2ExtKeyUsage 2]
   \<and> x509_ExtKeyUsage (ParseSm2Certificate2X509 (example_sm2_Certificate (Sm2PublicKey P256Sm2 1 2)))
       = Some [X509ExtKeyUsage 2]
   \<and> ParseX509Certificate2Sm2 (ParseSm2Certificate2X509 (example_sm2_Certificate (Sm2PublicKey P256Sm2 1 2)))
       = example_sm2_Certificate (Sm2PublicKey P256Sm2 1 2)
   \<and> x509_ExtKeyUsage (example_x509_Certificate None) = Some [X509ExtKeyUsage 2]
   \<and> sm2_ExtKeyUsage (ParseX509Certificate2Sm2 (example_x509_Certificate None)) = Some [Sm2ExtKeyUsage 2]
   \<and> ParseSm2Certificate2X509 (ParseX509Certificate2Sm2 (example_x509_Certificate None))
       = example_x509_Certificate None"
proof -
  let ?s = "example_sm2_Certificate (Sm2PublicKey P256Sm2 1 2)"
  let ?c = "example_x509_Certificate None"
  note t = certificate_conversion [of ?s ?c]
  have es: "sm2_ExtKeyUsage ?s = Some [Sm2ExtKeyUsage 2]"
    by (simp add: example_sm2_Certificate_def)
  have ec: "x509_ExtKeyUsage ?c = Some [X509ExtKeyUsage 2]"
    by (simp add: example_x509_Certificate_def)
  have xc: "x509_URIs ?c = None"
      "x509_ExcludedDNSDomains ?c = None"
      "x509_PermittedIPRanges ?c = None"
      "x509_ExcludedIPRanges ?c = None"
      "x509_PermittedEmailAddresses ?c = None"
      "x509_ExcludedEmailAddresses ?c = None"
      "x509_PermittedURIDomains ?c = None"
      "x509_ExcludedURIDomains ?c = None"
    by (simp_all add: example_x509_Certificate_def)
  have a0: "x509_ExtKeyUsage (ParseSm2Certificate2X509 ?s)
       = (if elems (sm2_ExtKeyUsage ?s) = [] then None
          else Some (map x509_ExtKeyUsage_of_sm2 (elems (sm2_ExtKeyUsage ?s))))"
    using t by blast
  have a: "x509_ExtKeyUsage (ParseSm2Certificate2X509 ?s) = Some [X509ExtKeyUsage 2]"
    unfolding a0 es by (simp add: elems_def)
  have b0: "(ParseX509Certificate2Sm2 (ParseSm2Certificate2X509 ?s) = ?s)
       = (sm2_ExtKeyUsage ?s \<noteq> Some [])"
    using t by blast
  have b: "ParseX509Certificate2Sm2 (ParseSm2Certificate2X509 ?s) = ?s"
    unfolding b0 es by simp
  have c0: "sm2_ExtKeyUsage (ParseX509Certificate2Sm2 ?c)
       = (if elems (x509_ExtKeyUsage ?c) = [] then None
          else Some (map sm2_ExtKeyUsage_of_x509 (elems (x509_ExtKeyUsage ?c))))"
    using t by blast
  have c: "sm2_ExtKeyUsage (ParseX509Certificate2Sm2 ?c) = Some [Sm2ExtKeyUsage 2]"
    unfolding c0 ec by (simp add: elems_def)
  have d0: "(ParseSm2Certificate2X509 (ParseX509Certificate2Sm2 ?c) = ?c)
       = (x509_ExtKeyUsage ?c \<noteq> Some []
            \<and> x509_URIs ?c = None
            \<and> x509_ExcludedDNSDomains ?c = None
            \<and> x509_PermittedIPRanges ?c = None
            \<and> x509_ExcludedIPRanges ?c = None
            \<and> x509_PermittedEmailAddresses ?c = None
            \<and> x509_ExcludedEmailAddresses ?c = None
            \<and> x509_PermittedURIDomains ?c = None
            \<and> x509_ExcludedURIDomains ?c = None)"
    using t by blast
  have d: "ParseSm2Certificate2X509 (ParseX509Certificate2Sm2 ?c) = ?c"
    unfolding d0 ec using xc by simp
  from es a b ec c d show ?thesis by blast
qed


section \<open>Properties of the PEM functions\<close>

text \<open>
  Claim C8. \<open>GetX509CertificateFromPEM\<close> returns an error exactly when the input has
  no PEM block; when a block is found and the parser of the national algorithm rejects
  its bytes, the result is the nil certificate with the nil error.
\<close>

theorem GetX509CertificateFromPEM_error_iff:
  "(snd (GetX509CertificateFromPEM lib cert) \<noteq> None \<longleftrightarrow> pem_Decode lib cert = None)
   \<and> (\<forall>block err. pem_Decode lib cert = Some block
          \<and> sm2_ParseCertificate lib (pem_Bytes block) = Inl err
        \<longrightarrow> GetX509CertificateFromPEM lib cert = (None, None))"
  by (auto simp: GetX509CertificateFromPEM_def split: option.splits sum.splits)

lemma example_pem_nonempty: "pem_Decode (example_util_lib pub) example_pem
   = Some \<lparr>pem_Type = ''CERTIFICATE'', pem_Headers = [], pem_Bytes = [0]\<rparr>"
  by (simp add: example_util_lib_def)

lemma example_not_pem: "pem_Decode (example_util_lib pub) [] = None"
  by (simp add: example_util_lib_def example_pem_def bytes_of_string_def)

theorem GetX509CertificateFromPEM_error_iff_witness:
  "pem_Decode (example_util_lib None) [] = None
   \<and> snd (GetX509CertificateFromPEM (example_util_lib None) []) \<noteq> None
   \<and> pem_Decode (example_util_lib None) example_pem
        = Some \<lparr>pem_Type = ''CERTIFICATE'', pem_Headers = [], pem_Bytes = [0]\<rparr>
   \<and> sm2_ParseCertificate (example_util_lib None) [0] = Inl (New ''asn1: structure error'')
   \<and> GetX509CertificateFromPEM (example_util_lib None) example_pem = (None, None)"
proof -
  have a: "pem_Decode (example_util_lib None) [] = None" by (rule example_not_pem)
  have b: "pem_Decode (example_util_lib None) example_pem
        = Some \<lparr>pem_Type = ''CERTIFICATE'', pem_Headers = [], pem_Bytes = [0]\<rparr>"
    by (rule example_pem_nonempty)
  have c: "sm2_ParseCertificate (example_util_lib None) [0] = Inl (New ''asn1: structure error'')"
    by (simp add: example_util_lib_def)
  from GetX509CertificateFromPEM_error_iff [of "example_util_lib None" "[]"] a
  have d: "snd (GetX509CertificateFromPEM (example_util_lib None) []) \<noteq> None" by simp
  from GetX509CertificateFromPEM_error_iff [of "example_util_lib None" example_pem] b c
  have e: "GetX509CertificateFromPEM (example_util_lib None) example_pem = (None, None)"
    by simp
  from a b c d e show ?thesis by simp
qed

text \<open>
  With a nil certificate and a nil error, both callers go on to read a field through
  the nil pointer.
\<close>

lemma nil_certificate_panics:
  assumes "GetX509CertificateFromPEM lib cert = (None, None)"
  shows "GetEnrollmentIDFromPEM lib cert = Panics NilPointerDereference"
    and "CreateToken lib csp cert key method uri body mode = Panics NilPointerDereference"
  using assms
  by (simp_all add: GetEnrollmentIDFromPEM_def GetEnrollmentIDFromX509Certificate_def CreateToken_def)

lemma example_nil_certificate:
  "GetX509CertificateFromPEM (example_util_lib None) example_pem = (None, None)"
  by (simp add: GetX509CertificateFromPEM_def example_pem_nonempty) (simp add: example_util_lib_def)

text \<open>
  Claim C10 says that \<open>GetEnrollmentIDFromPEM\<close> and \<open>CreateToken\<close> complete normally
  on an input whose PEM block the parser rejects. On the block whose content is the byte
  0 both panic with a nil-pointer dereference.
\<close>

theorem callers_panic_on_nil_certificate:
  "GetX509CertificateFromPEM (example_util_lib None) example_pem = (None, None)
   \<and> GetEnrollmentIDFromPEM (example_util_lib None) example_pem = Panics NilPointerDereference
   \<and> CreateToken (example_util_lib None) (example_csp [1]) example_pem 0 ''POST'' ''/enroll'' [] False
       = Panics NilPointerDereference"
  using example_nil_certificate nil_certificate_panics [OF example_nil_certificate]
  by simp

section \<open>Properties of the token functions\<close>

text \<open>
  Claim C2. In compatibility mode \<open>GenECDSAToken\<close> hashes exactly
  \<open>base64(body) . base64(cert)\<close>, otherwise exactly
  \<open>method . base64(uri) . base64(body) . base64(cert)\<close>: a failure of the hash at
  that payload is the failure of the function, and when the hash of that payload is
  signed with a signature that is not empty the token is \<open>base64(cert) . base64(signature)\<close>.
\<close>

theorem GenECDSAToken_payload:
  "payload = (if fabCACompatibilityMode
              then B64Encode body @ ''.'' @ B64Encode cert
              else method @ ''.'' @ B64Encode (bytes_of_string uri) @ ''.'' @ B64Encode body
                   @ ''.'' @ B64Encode cert)
   \<Longrightarrow> GenECDSAToken csp cert key method uri body fabCACompatibilityMode
         = genECDSAToken csp key (B64Encode cert) payload
       \<and> (\<forall>digest err. Hash csp (bytes_of_string payload) GetSHAOpts = (digest, Some err)
            \<longrightarrow> GenECDSAToken csp cert key method uri body fabCACompatibilityMode
                = ([], Some (WithMessage err (''Hash failed on '' @ [CHR 0x27] @ payload @ [CHR 0x27]))))
       \<and> (\<forall>digest signature.
              Hash csp (bytes_of_string payload) GetSHAOpts = (digest, None)
              \<and> Sign csp key digest None = (signature, None) \<and> signature \<noteq> []
            \<longrightarrow> GenECDSAToken csp cert key method uri body fabCACompatibilityMode
                = (B64Encode cert @ ''.'' @ B64Encode signature, None))"
proof -
  assume p: "payload = (if fabCACompatibilityMode
              then B64Encode body @ ''.'' @ B64Encode cert
              else method @ ''.'' @ B64Encode (bytes_of_string uri) @ ''.'' @ B64Encode body
                   @ ''.'' @ B64Encode cert)"
  have route: "GenECDSAToken csp cert key method uri body fabCACompatibilityMode
         = genECDSAToken csp key (B64Encode cert) payload"
    unfolding p by (simp add: GenECDSAToken_def Let_def)
  have failed: "genECDSAToken csp key (B64Encode cert) payload
       = ([], Some (WithMessage err (''Hash failed on '' @ [CHR 0x27] @ payload @ [CHR 0x27])))"
    if "Hash csp (bytes_of_string payload) GetSHAOpts = (digest, Some err)" for digest err
    using that by (simp add: genECDSAToken_def)
  have signed: "genECDSAToken csp key (B64Encode cert) payload
       = (B64Encode cert @ ''.'' @ B64Encode signature, None)"
    if "Hash csp (bytes_of_string payload) GetSHAOpts = (digest, None)"
      and "Sign csp key digest None = (signature, None)" and "signature \<noteq> []"
    for digest signature
    using that by (simp add: genECDSAToken_def)
  show ?thesis
    unfolding route using failed signed by blast
qed

theorem GenECDSAToken_payload_witness:
  "Hash (example_csp [1, 2, 3]) (bytes_of_string ''AA==.AA=='') GetSHAOpts = ([65, 65], None)
   \<and> Sign (example_csp [1, 2, 3]) (0::nat) [65, 65] None = ([1, 2, 3], None)
   \<and> GenECDSAToken (example_csp [1, 2, 3]) [0] 0 ''POST'' ''/enroll'' [0] True = (''AA==.AQID'', None)
   \<and> Hash (example_csp [1, 2, 3]) (bytes_of_string ''POST.L2Vucm9sbA==.AA==.AA=='') GetSHAOpts
        = ([80, 79], None)
   \<and> Sign (example_csp [1, 2, 3]) (0::nat) [80, 79] None = ([1, 2, 3], None)
   \<and> GenECDSAToken (example_csp [1, 2, 3]) [0] 0 ''POST'' ''/enroll'' [0] False = (''AA==.AQID'', None)"
proof -
  have b: "B64Encode [0] = ''AA==''" "B64Encode [1, 2, 3] = ''AQID''"
    "B64Encode (bytes_of_string ''/enroll'') = ''L2Vucm9sbA==''"
    by (simp_all add: bytes_of_string_def b64_digit_def encodeStd_def)
  have p1: "''AA==.AA=='' = (if True then B64Encode [0] @ ''.'' @ B64Encode [0]
       else ''POST'' @ ''.'' @ B64Encode (bytes_of_string ''/enroll'') @ ''.'' @ B64Encode [0]
            @ ''.'' @ B64Encode [0])"
    unfolding b by simp
  have p2: "''POST.L2Vucm9sbA==.AA==.AA=='' = (if False then B64Encode [0] @ ''.'' @ B64Encode [0]
       else ''POST'' @ ''.'' @ B64Encode (bytes_of_string ''/enroll'') @ ''.'' @ B64Encode [0]
            @ ''.'' @ B64Encode [0])"
    unfolding b by simp
  have h1: "Hash (example_csp [1, 2, 3]) (bytes_of_string ''AA==.AA=='') GetSHAOpts = ([65, 65], None)"
    by (simp add: example_csp_def bytes_of_string_def)
  have h2: "Hash (example_csp [1, 2, 3]) (bytes_of_string ''POST.L2Vucm9sbA==.AA==.AA=='') GetSHAOpts
        = ([80, 79], None)"
    by (simp add: example_csp_def bytes_of_string_def)
  have s: "Sign (example_csp [1, 2, 3]) (0::nat) d None = ([1, 2, 3], None)" for d
    by (simp add: example_csp_def)
  have ne: "[1, 2, 3] \<noteq> ([] :: byte list)" by simp
  have t1: "GenECDSAToken (example_csp [1, 2, 3]) [0] 0 ''POST'' ''/enroll'' [0] True
            = (B64Encode [0] @ ''.'' @ B64Encode [1, 2, 3], None)"
    using GenECDSAToken_payload [OF p1, where csp = "example_csp [1, 2, 3]" and key = 0] h1 s ne
    by blast
  have t2: "GenECDSAToken (example_csp [1, 2, 3]) [0] 0 ''POST'' ''/enroll'' [0] False
            = (B64Encode [0] @ ''.'' @ B64Encode [1, 2, 3], None)"
    using GenECDSAToken_payload [OF p2, where csp = "example_csp [1, 2, 3]" and key = 0] h2 s ne
    by blast
  have e: "B64Encode [0] @ ''.'' @ B64Encode [1, 2, 3] = ''AA==.AQID''"
    unfolding b by simp
  show ?thesis using h1 h2 s t1 t2 unfolding e by blast
qed


section \<open>Properties of the request builder\<close>

lemma signerAlgo_sm2: "Public priv = Sm2PublicKey curve x y \<Longrightarrow> signerAlgo priv = SM2WithSM3"
  by (simp add: signerAlgo_def)

lemma signerAlgo_other:
  "(\<forall>curve x y. Public priv \<noteq> Sm2PublicKey curve x y) \<Longrightarrow> signerAlgo priv = UnknownSignatureAlgorithm"
  by (cases "Public priv") (simp_all add: signerAlgo_def)

lemma SM2WithSM3_known: "SM2WithSM3 \<noteq> UnknownSignatureAlgorithm"
  by (simp add: SM2WithSM3_def UnknownSignatureAlgorithm_def)

lemma generate_unknown:
  "signerAlgo priv = UnknownSignatureAlgorithm
   \<Longrightarrow> generate lib priv req key = ([], Some (New ''Private key is unavailable ''))"
  by (simp add: generate_def)

text \<open>
  Claim C3. With a signing key whose public key is not of the national family,
  \<open>generate\<close> returns the key-unavailable error and no request bytes, whatever the
  request, the key of the provider and the libraries are: neither the hosts, nor the
  subject, nor the CA configuration of the request take part in the result.
\<close>

theorem generate_key_unavailable:
  "(\<forall>curve x y. Public priv \<noteq> Sm2PublicKey curve x y)
   \<Longrightarrow> generate lib priv req key = ([], Some (New ''Private key is unavailable ''))
       \<and> generate lib priv req key = generate lib' priv req' key'"
  by (simp add: generate_unknown signerAlgo_other)

theorem generate_key_unavailable_witness:
  "(\<forall>curve x y. Public \<lparr>Public = EcdsaPublicKey P256 1 2\<rparr> \<noteq> Sm2PublicKey curve x y)
   \<and> generate (example_csr_lib [7]) \<lparr>Public = EcdsaPublicKey P256 1 2\<rparr> (example_request None) 0
       = ([], Some (New ''Private key is unavailable ''))
   \<and> generate (example_csr_lib [7]) \<lparr>Public = EcdsaPublicKey P256 1 2\<rparr> (example_request None) 0
       = generate (example_csr_lib []) \<lparr>Public = EcdsaPublicKey P256 1 2\<rparr>
           (example_request (Some \<lparr>PathLength = 5, PathLenZero = False, Expiry = [], Backdate = []\<rparr>)) 1"
proof -
  have h: "\<forall>curve x y. Public \<lparr>Public = EcdsaPublicKey P256 1 2\<rparr> \<noteq> Sm2PublicKey curve x y"
    by simp
  show ?thesis
    using h generate_key_unavailable [OF h, where lib = "example_csr_lib [7]"
      and req = "example_request None" and key = 0
      and lib' = "example_csr_lib []"
      and req' = "example_request (Some \<lparr>PathLength = 5, PathLenZero = False, Expiry = [], Backdate = []\<rparr>)"
      and key' = 1]
    by blast
qed

text \<open>
  Claim C4 says that a public key of the national family on an unrecognized curve
  yields \<open>UnknownSignatureAlgorithm\<close>. The default branch of the switch over the
  curve returns \<open>SM2WithSM3\<close>, as the branch of the recognized curve does.
\<close>

theorem signerAlgo_unrecognized_curve:
  "signerAlgo \<lparr>Public = Sm2PublicKey (OtherCurve 7) 1 2\<rparr> = SM2WithSM3
   \<and> signerAlgo \<lparr>Public = Sm2PublicKey (OtherCurve 7) 1 2\<rparr> \<noteq> UnknownSignatureAlgorithm"
  by (simp add: signerAlgo_def SM2WithSM3_known)

text \<open>
  Claim C4, amended. A public key of the national family yields \<open>SM2WithSM3\<close> on
  every curve, recognized or not; every other public key, the nil key included, yields
  \<open>UnknownSignatureAlgorithm\<close> and with it the key-unavailable failure of the builder.
\<close>

theorem signerAlgo_by_key_type:
  "((\<exists>curve x y. Public priv = Sm2PublicKey curve x y)
      \<longrightarrow> signerAlgo priv = SM2WithSM3 \<and> signerAlgo priv \<noteq> UnknownSignatureAlgorithm)
   \<and> ((\<forall>curve x y. Public priv \<noteq> Sm2PublicKey curve x y)
      \<longrightarrow> signerAlgo priv = UnknownSignatureAlgorithm
          \<and> generate lib priv req key = ([], Some (New ''Private key is unavailable '')))"
  using signerAlgo_sm2 [of priv] signerAlgo_other [of priv] generate_unknown [of priv lib req key]
    SM2WithSM3_known
  by auto

theorem signerAlgo_by_key_type_witness:
  "(\<exists>curve x y. Public \<lparr>Public = Sm2PublicKey P256 1 2\<rparr> = Sm2PublicKey curve x y)
   \<and> signerAlgo \<lparr>Public = Sm2PublicKey P256 1 2\<rparr> = SM2WithSM3
   \<and> (\<forall>curve x y. Public \<lparr>Public = RsaPublicKey 3233 17\<rparr> \<noteq> Sm2PublicKey curve x y)
   \<and> signerAlgo \<lparr>Public = RsaPublicKey 3233 17\<rparr> = UnknownSignatureAlgorithm
   \<and> generate (example_csr_lib [7]) \<lparr>Public = RsaPublicKey 3233 17\<rparr> (example_request None) 0
        = ([], Some (New ''Private key is unavailable ''))"
  using signerAlgo_by_key_type [of "\<lparr>Public = Sm2PublicKey P256 1 2\<rparr>" "example_csr_lib [7]"
      "example_request None" 0]
    signerAlgo_by_key_type [of "\<lparr>Public = RsaPublicKey 3233 17\<rparr>" "example_csr_lib [7]"
      "example_request None" 0]
  by simp


text \<open>
  The loop over the hosts appends to the three lists of the template and changes
  nothing else; each list receives its hosts in the order of the request.
\<close>

lemma classify_hosts_eq:
  "classify_hosts lib hosts tpl =
     tpl\<lparr>csr_DNSNames := csr_DNSNames tpl
            @ filter (\<lambda>host. net_ParseIP lib host = None \<and> isl (mail_ParseAddress lib host)) hosts,
         csr_EmailAddresses := csr_EmailAddresses tpl
            @ List.map_filter (\<lambda>host. case net_ParseIP lib host of
                  Some ip \<Rightarrow> None
                | None \<Rightarrow> (case mail_ParseAddress lib host of
                              Inr email \<Rightarrow> Some (mail_Address email)
                            | Inl err \<Rightarrow> None)) hosts,
         csr_IPAddresses := csr_IPAddresses tpl @ List.map_filter (net_ParseIP lib) hosts\<rparr>"
proof (induction hosts arbitrary: tpl)
  case Nil
  then show ?case by (simp add: List.map_filter_simps)
next
  case (Cons host hosts)
  show ?case
  proof (cases "net_ParseIP lib host")
    case (Some ip)
    then show ?thesis by (simp add: Cons.IH List.map_filter_simps)
  next
    case None
    then show ?thesis
      by (cases "mail_ParseAddress lib host") (simp_all add: Cons.IH List.map_filter_simps)
  qed
qed

text \<open>With a key of the national family the builder goes on to the template.\<close>

lemma generate_sm2:
  "Public priv = Sm2PublicKey curve x y \<Longrightarrow>
   generate lib priv req key =
     (case req_CA req of
        None \<Rightarrow> CreateSm2CertificateRequestToMem lib
                  (classify_hosts lib (req_Hosts req)
                     \<lparr>csr_SignatureAlgorithm = SM2WithSM3, csr_Subject = req_Name lib req,
                      csr_ExtraExtensions = [], csr_DNSNames = [], csr_EmailAddresses = [],
                      csr_IPAddresses = []\<rparr>) key
      | Some ca \<Rightarrow>
          (case appendCAInfoToCSRSm2 lib ca
                  (classify_hosts lib (req_Hosts req)
                     \<lparr>csr_SignatureAlgorithm = SM2WithSM3, csr_Subject = req_Name lib req,
                      csr_ExtraExtensions = [], csr_DNSNames = [], csr_EmailAddresses = [],
                      csr_IPAddresses = []\<rparr>) of
             (tpl, Some err) \<Rightarrow> ([], Some (New (''failed to appendCAInfoToCSRSm2 :'' @ Error err)))
           | (tpl, None) \<Rightarrow> CreateSm2CertificateRequestToMem lib tpl key))"
  by (simp add: generate_def signerAlgo_sm2 SM2WithSM3_known Let_def)

text \<open>
  Claim C5. \<open>generate\<close> classifies the hosts of the request in their order, each
  host by the first test that succeeds: a host that parses as an IP literal contributes
  the parsed address to the IP addresses and to nothing else; otherwise a host that
  parses as a mail address contributes the address of the parsed value to the email
  addresses; otherwise the host itself goes to the DNS names. The three lists are
  functions of the host list and the two parsers alone, and they are the lists of the
  template that \<open>generate\<close> hands to the signing step.
\<close>

theorem host_classification:
  "csr_IPAddresses (classify_hosts lib hosts tpl)
     = csr_IPAddresses tpl @ List.map_filter (net_ParseIP lib) hosts
   \<and> csr_EmailAddresses (classify_hosts lib hosts tpl)
     = csr_EmailAddresses tpl
       @ List.map_filter (\<lambda>host. case net_ParseIP lib host of
             Some ip \<Rightarrow> None
           | None \<Rightarrow> (case mail_ParseAddress lib host of
                         Inr email \<Rightarrow> Some (mail_Address email)
                       | Inl err \<Rightarrow> None)) hosts
   \<and> csr_DNSNames (classify_hosts lib hosts tpl)
     = csr_DNSNames tpl
       @ filter (\<lambda>host. net_ParseIP lib host = None \<and> isl (mail_ParseAddress lib host)) hosts
   \<and> csr_SignatureAlgorithm (classify_hosts lib hosts tpl) = csr_SignatureAlgorithm tpl
   \<and> csr_Subject (classify_hosts lib hosts tpl) = csr_Subject tpl
   \<and> csr_ExtraExtensions (classify_hosts lib hosts tpl) = csr_ExtraExtensions tpl
   \<and> ((\<exists>curve x y. Public priv = Sm2PublicKey curve x y) \<and> req_CA req = None
        \<longrightarrow> generate lib priv req key =
            CreateSm2CertificateRequestToMem lib
              \<lparr>csr_SignatureAlgorithm = SM2WithSM3,
               csr_Subject = req_Name lib req,
               csr_ExtraExtensions = [],
               csr_DNSNames = filter (\<lambda>host. net_ParseIP lib host = None
                                  \<and> isl (mail_ParseAddress lib host)) (req_Hosts req),
               csr_EmailAddresses = List.map_filter (\<lambda>host. case net_ParseIP lib host of
                     Some ip \<Rightarrow> None
                   | None \<Rightarrow> (case mail_ParseAddress lib host of
                                 Inr email \<Rightarrow> Some (mail_Address email)
                               | Inl err \<Rightarrow> None)) (req_Hosts req),
               csr_IPAddresses = List.map_filter (net_ParseIP lib) (req_Hosts req)\<rparr> key)"
proof -
  have fields: "csr_IPAddresses (classify_hosts lib hosts tpl)
     = csr_IPAddresses tpl @ List.map_filter (net_ParseIP lib) hosts"
    "csr_EmailAddresses (classify_hosts lib hosts tpl)
     = csr_EmailAddresses tpl
       @ List.map_filter (\<lambda>host. case net_ParseIP lib host of
             Some ip \<Rightarrow> None
           | None \<Rightarrow> (case mail_ParseAddress lib host of
                         Inr email \<Rightarrow> Some (mail_Address email)
                       | Inl err \<Rightarrow> None)) hosts"
    "csr_DNSNames (classify_hosts lib hosts tpl)
     = csr_DNSNames tpl
       @ filter (\<lambda>host. net_ParseIP lib host = None \<and> isl (mail_ParseAddress lib host)) hosts"
    "csr_SignatureAlgorithm (classify_hosts lib hosts tpl) = csr_SignatureAlgorithm tpl"
    "csr_Subject (classify_hosts lib hosts tpl) = csr_Subject tpl"
    "csr_ExtraExtensions (classify_hosts lib hosts tpl) = csr_ExtraExtensions tpl"
    by (simp_all add: classify_hosts_eq)
  have gen: "generate lib priv req key =
            CreateSm2CertificateRequestToMem lib
              \<lparr>csr_SignatureAlgorithm = SM2WithSM3,
               csr_Subject = req_Name lib req,
               csr_ExtraExtensions = [],
               csr_DNSNames = filter (\<lambda>host. net_ParseIP lib host = None
                                  \<and> isl (mail_ParseAddress lib host)) (req_Hosts req),
               csr_EmailAddresses = List.map_filter (\<lambda>host. case net_ParseIP lib host of
                     Some ip \<Rightarrow> None
                   | None \<Rightarrow> (case mail_ParseAddress lib host of
                                 Inr email \<Rightarrow> Some (mail_Address email)
                               | Inl err \<Rightarrow> None)) (req_Hosts req),
               csr_IPAddresses = List.map_filter (net_ParseIP lib) (req_Hosts req)\<rparr> key"
    if "Public priv = Sm2PublicKey curve x y" and "req_CA req = None" for curve x y
    using that by (simp add: generate_sm2 [OF that(1)] classify_hosts_eq)
  show ?thesis using fields gen by blast
qed

theorem host_classification_witness:
  "csr_IPAddresses (classify_hosts (example_csr_lib [7]) [''10.0.0.1'', ''a@b.com'', ''example.org'']
       \<lparr>csr_SignatureAlgorithm = SM2WithSM3, csr_Subject = example_Name, csr_ExtraExtensions = [],
        csr_DNSNames = [], csr_EmailAddresses = [], csr_IPAddresses = []\<rparr>)
     = [[0, 0, 0, 0, 0, 0, 0, 0, 0, 0, 255, 255, 10, 0, 0, 1]]
   \<and> csr_EmailAddresses (classify_hosts (example_csr_lib [7]) [''10.0.0.1'', ''a@b.com'', ''example.org'']
       \<lparr>csr_SignatureAlgorithm = SM2WithSM3, csr_Subject = example_Name, csr_ExtraExtensions = [],
        csr_DNSNames = [], csr_EmailAddresses = [], csr_IPAddresses = []\<rparr>)
     = [''a@b.com'']
   \<and> csr_DNSNames (classify_hosts (example_csr_lib [7]) [''10.0.0.1'', ''a@b.com'', ''example.org'']
       \<lparr>csr_SignatureAlgorithm = SM2WithSM3, csr_Subject = example_Name, csr_ExtraExtensions = [],
        csr_DNSNames = [], csr_EmailAddresses = [], csr_IPAddresses = []\<rparr>)
     = [''example.org'']
   \<and> (\<exists>curve x y. Public \<lparr>Public = Sm2PublicKey P256Sm2 1 2\<rparr> = Sm2PublicKey curve x y)
   \<and> req_CA (example_request None) = None
   \<and> generate (example_csr_lib [7]) \<lparr>Public = Sm2PublicKey P256Sm2 1 2\<rparr> (example_request None) 0
     = CreateSm2CertificateRequestToMem (example_csr_lib [7])
         \<lparr>csr_SignatureAlgorithm = SM2WithSM3,
          csr_Subject = example_Name\<lparr>CommonName := ''test''\<rparr>,
          csr_ExtraExtensions = [],
          csr_DNSNames = [''example.org''],
          csr_EmailAddresses = [''a@b.com''],
          csr_IPAddresses = [[0, 0, 0, 0, 0, 0, 0, 0, 0, 0, 255, 255, 10, 0, 0, 1]]\<rparr> 0"
proof -
  have k: "\<exists>curve x y. Public \<lparr>Public = Sm2PublicKey P256Sm2 1 2\<rparr> = Sm2PublicKey curve x y"
    by simp
  have ca: "req_CA (example_request None) = None"
    by (simp add: example_request_def)
  show ?thesis
    using k ca host_classification [where lib = "example_csr_lib [7]"
        and hosts = "[''10.0.0.1'', ''a@b.com'', ''example.org'']"
        and tpl = "\<lparr>csr_SignatureAlgorithm = SM2WithSM3, csr_Subject = example_Name,
             csr_ExtraExtensions = [], csr_DNSNames = [], csr_EmailAddresses = [],
             csr_IPAddresses = []\<rparr>"
        and priv = "\<lparr>Public = Sm2PublicKey P256Sm2 1 2\<rparr>"
        and req = "example_request None" and key = 0]
    by (simp add: example_csr_lib_def example_request_def List.map_filter_simps)
qed

text \<open>
  Claim C6. \<open>appendCAInfoToCSRSm2\<close> marshals the basic constraints with \<open>IsCA\<close>
  true and the configured path length, where a path length of 0 that is not marked as
  meaningful is replaced by -1; on success the extra extensions of the request are
  exactly one extension, with object identifier 2.5.29.19, critical, whose value is the
  marshalled bytes, and \<open>generate\<close> signs the template with that extension; on a
  failure of the marshalling the request is left as it was and \<open>generate\<close> returns
  an error and no request bytes.
\<close>

theorem appendCAInfoToCSRSm2_extension:
  "pathlen = (if PathLength reqConf = 0 \<and> \<not> PathLenZero reqConf then - 1 else PathLength reqConf)
   \<Longrightarrow> (\<forall>val. asn1_Marshal lib \<lparr>bc_IsCA = True, bc_MaxPathLen = pathlen\<rparr> = Inr val
          \<longrightarrow> appendCAInfoToCSRSm2 lib reqConf csreq
              = (csreq\<lparr>csr_ExtraExtensions :=
                    [\<lparr>Id = [2, 5, 29, 19], Critical = True, ExtValue = val\<rparr>]\<rparr>, None)
            \<and> ((\<exists>curve x y. Public priv = Sm2PublicKey curve x y) \<and> req_CA req = Some reqConf
                 \<longrightarrow> generate lib priv req key
                     = CreateSm2CertificateRequestToMem lib
                         ((classify_hosts lib (req_Hosts req)
                             \<lparr>csr_SignatureAlgorithm = SM2WithSM3, csr_Subject = req_Name lib req,
                              csr_ExtraExtensions = [], csr_DNSNames = [], csr_EmailAddresses = [],
                              csr_IPAddresses = []\<rparr>)
                          \<lparr>csr_ExtraExtensions :=
                             [\<lparr>Id = [2, 5, 29, 19], Critical = True, ExtValue = val\<rparr>]\<rparr>) key))
       \<and> (\<forall>err. asn1_Marshal lib \<lparr>bc_IsCA = True, bc_MaxPathLen = pathlen\<rparr> = Inl err
          \<longrightarrow> appendCAInfoToCSRSm2 lib reqConf csreq = (csreq, Some err)
            \<and> ((\<exists>curve x y. Public priv = Sm2PublicKey curve x y) \<and> req_CA req = Some reqConf
                 \<longrightarrow> generate lib priv req key
                     = ([], Some (New (''failed to appendCAInfoToCSRSm2 :'' @ Error err)))))
       \<and> (PathLength reqConf = 0 \<and> \<not> PathLenZero reqConf \<longrightarrow> pathlen = - 1)"
proof -
  assume p: "pathlen = (if PathLength reqConf = 0 \<and> \<not> PathLenZero reqConf then - 1 else PathLength reqConf)"
  have ok: "appendCAInfoToCSRSm2 lib reqConf tpl
              = (tpl\<lparr>csr_ExtraExtensions :=
                    [\<lparr>Id = [2, 5, 29, 19], Critical = True, ExtValue = val\<rparr>]\<rparr>, None)"
    if "asn1_Marshal lib \<lparr>bc_IsCA = True, bc_MaxPathLen = pathlen\<rparr> = Inr val" for val tpl
    using that unfolding p by (simp add: appendCAInfoToCSRSm2_def Let_def)
  have bad: "appendCAInfoToCSRSm2 lib reqConf tpl = (tpl, Some err)"
    if "asn1_Marshal lib \<lparr>bc_IsCA = True, bc_MaxPathLen = pathlen\<rparr> = Inl err" for err tpl
    using that unfolding p by (simp add: appendCAInfoToCSRSm2_def Let_def)
  have gen_ok: "generate lib priv req key
                     = CreateSm2CertificateRequestToMem lib
                         ((classify_hosts lib (req_Hosts req)
                             \<lparr>csr_SignatureAlgorithm = SM2WithSM3, csr_Subject = req_Name lib req,
                              csr_ExtraExtensions = [], csr_DNSNames = [], csr_EmailAddresses = [],
                              csr_IPAddresses = []\<rparr>)
                          \<lparr>csr_ExtraExtensions :=
                             [\<lparr>Id = [2, 5, 29, 19], Critical = True, ExtValue = val\<rparr>]\<rparr>) key"
    if "asn1_Marshal lib \<lparr>bc_IsCA = True, bc_MaxPathLen = pathlen\<rparr> = Inr val"
      and "Public priv = Sm2PublicKey curve x y" and "req_CA req = Some reqConf" for val curve x y
    using that(3) by (simp add: generate_sm2 [OF that(2)] ok [OF that(1)])
  have gen_bad: "generate lib priv req key
                     = ([], Some (New (''failed to appendCAInfoToCSRSm2 :'' @ Error err)))"
    if "asn1_Marshal lib \<lparr>bc_IsCA = True, bc_MaxPathLen = pathlen\<rparr> = Inl err"
      and "Public priv = Sm2PublicKey curve x y" and "req_CA req = Some reqConf" for err curve x y
    using that(3) by (simp add: generate_sm2 [OF that(2)] bad [OF that(1)])
  have edge: "PathLength reqConf = 0 \<and> \<not> PathLenZero reqConf \<longrightarrow> pathlen = - 1"
    unfolding p by simp
  show ?thesis
    using ok [of _ csreq] bad [of _ csreq] gen_ok gen_bad edge by blast
qed

theorem appendCAInfoToCSRSm2_extension_witness:
  "(- 1 :: int) = (if PathLength \<lparr>PathLength = 0, PathLenZero = False, Expiry = [], Backdate = []\<rparr> = 0
        \<and> \<not> PathLenZero \<lparr>PathLength = 0, PathLenZero = False, Expiry = [], Backdate = []\<rparr>
      then - 1 else PathLength \<lparr>PathLength = 0, PathLenZero = False, Expiry = [], Backdate = []\<rparr>)
   \<and> asn1_Marshal (example_csr_lib [7]) \<lparr>bc_IsCA = True, bc_MaxPathLen = - 1\<rparr> = Inr [48, 3, 1, 1, 255]
   \<and> appendCAInfoToCSRSm2 (example_csr_lib [7])
         \<lparr>PathLength = 0, PathLenZero = False, Expiry = [], Backdate = []\<rparr>
         \<lparr>csr_SignatureAlgorithm = SM2WithSM3, csr_Subject = example_Name, csr_ExtraExtensions = [],
          csr_DNSNames = [], csr_EmailAddresses = [], csr_IPAddresses = []\<rparr>
       = (\<lparr>csr_SignatureAlgorithm = SM2WithSM3, csr_Subject = example_Name,
           csr_ExtraExtensions = [\<lparr>Id = [2, 5, 29, 19], Critical = True, ExtValue = [48, 3, 1, 1, 255]\<rparr>],
           csr_DNSNames = [], csr_EmailAddresses = [], csr_IPAddresses = []\<rparr>, None)
   \<and> (5 :: int) = (if PathLength \<lparr>PathLength = 5, PathLenZero = False, Expiry = [], Backdate = []\<rparr> = 0
        \<and> \<not> PathLenZero \<lparr>PathLength = 5, PathLenZero = False, Expiry = [], Backdate = []\<rparr>
      then - 1 else PathLength \<lparr>PathLength = 5, PathLenZero = False, Expiry = [], Backdate = []\<rparr>)
   \<and> asn1_Marshal (example_csr_lib [7]) \<lparr>bc_IsCA = True, bc_MaxPathLen = 5\<rparr>
       = Inl (New ''asn1: structure error'')
   \<and> (\<exists>curve x y. Public \<lparr>Public = Sm2PublicKey P256Sm2 1 2\<rparr> = Sm2PublicKey curve x y)
   \<and> req_CA (example_request (Some \<lparr>PathLength = 5, PathLenZero = False, Expiry = [], Backdate = []\<rparr>))
       = Some \<lparr>PathLength = 5, PathLenZero = False, Expiry = [], Backdate = []\<rparr>
   \<and> generate (example_csr_lib [7]) \<lparr>Public = Sm2PublicKey P256Sm2 1 2\<rparr>
         (example_request (Some \<lparr>PathLength = 5, PathLenZero = False, Expiry = [], Backdate = []\<rparr>)) 0
       = ([], Some (New ''failed to appendCAInfoToCSRSm2 :asn1: structure error''))"
proof -
  let ?ca0 = "\<lparr>PathLength = 0, PathLenZero = False, Expiry = [], Backdate = []\<rparr>"
  let ?ca5 = "\<lparr>PathLength = 5, PathLenZero = False, Expiry = [], Backdate = []\<rparr>"
  let ?tpl = "\<lparr>csr_SignatureAlgorithm = SM2WithSM3, csr_Subject = example_Name, csr_ExtraExtensions = [],
          csr_DNSNames = [], csr_EmailAddresses = [], csr_IPAddresses = []\<rparr>"
  let ?priv = "\<lparr>Public = Sm2PublicKey P256Sm2 1 2\<rparr>"
  have p0: "(- 1 :: int) = (if PathLength ?ca0 = 0 \<and> \<not> PathLenZero ?ca0 then - 1 else PathLength ?ca0)"
    by simp
  have p5: "(5 :: int) = (if PathLength ?ca5 = 0 \<and> \<not> PathLenZero ?ca5 then - 1 else PathLength ?ca5)"
    by simp
  have m0: "asn1_Marshal (example_csr_lib [7]) \<lparr>bc_IsCA = True, bc_MaxPathLen = - 1\<rparr> = Inr [48, 3, 1, 1, 255]"
    by (simp add: example_csr_lib_def)
  have m5: "asn1_Marshal (example_csr_lib [7]) \<lparr>bc_IsCA = True, bc_MaxPathLen = 5\<rparr>
       = Inl (New ''asn1: structure error'')"
    by (simp add: example_csr_lib_def)
  have k: "\<exists>curve x y. Public ?priv = Sm2PublicKey curve x y"
    by simp
  have ca: "req_CA (example_request (Some ?ca5)) = Some ?ca5"
    by (simp add: example_request_def)
  have a0: "appendCAInfoToCSRSm2 (example_csr_lib [7]) ?ca0 ?tpl
       = (?tpl\<lparr>csr_ExtraExtensions :=
             [\<lparr>Id = [2, 5, 29, 19], Critical = True, ExtValue = [48, 3, 1, 1, 255]\<rparr>]\<rparr>, None)"
    using appendCAInfoToCSRSm2_extension [OF p0, where lib = "example_csr_lib [7]" and csreq = ?tpl] m0
    by blast
  have g5: "generate (example_csr_lib [7]) ?priv (example_request (Some ?ca5)) 0
       = ([], Some (New (''failed to appendCAInfoToCSRSm2 :'' @ Error (New ''asn1: structure error''))))"
    using appendCAInfoToCSRSm2_extension [OF p5, where lib = "example_csr_lib [7]" and priv = ?priv
        and req = "example_request (Some ?ca5)" and key = 0] m5 k ca
    by blast
  show ?thesis
    using p0 p5 m0 m5 k ca a0 g5 by simp
qed


section \<open>Properties of \<open>CreateToken\<close>\<close>

text \<open>The converter copies the public key; the example library parses the example block.\<close>

lemma ParseSm2Certificate2X509_PublicKey:
  "x509_PublicKey (ParseSm2Certificate2X509 s) = sm2_PublicKey s"
  by (simp add: ParseSm2Certificate2X509_eq)

lemma example_certificate:
  "GetX509CertificateFromPEM (example_util_lib (Some pub)) example_pem
     = (Some (ParseSm2Certificate2X509 (example_sm2_Certificate pub)), None)"
  by (simp add: GetX509CertificateFromPEM_def example_pem_nonempty) (simp add: example_util_lib_def)

lemma example_certificate_PublicKey:
  "x509_PublicKey (ParseSm2Certificate2X509 (example_sm2_Certificate pub)) = pub"
  by (simp add: ParseSm2Certificate2X509_PublicKey example_sm2_Certificate_def)

lemma CreateToken_other:
  assumes "GetX509CertificateFromPEM lib cert = (Some c, None)"
    and "\<forall>curve x y. x509_PublicKey c \<noteq> EcdsaPublicKey curve x y
            \<and> x509_PublicKey c \<noteq> Sm2PublicKey curve x y"
  shows "CreateToken lib csp cert key method uri body mode = Returns ([], None)"
  using assms by (cases "x509_PublicKey c") (simp_all add: CreateToken_def)

lemma CreateToken_elliptic:
  assumes "GetX509CertificateFromPEM lib cert = (Some c, None)"
    and "x509_PublicKey c = EcdsaPublicKey curve x y \<or> x509_PublicKey c = Sm2PublicKey curve x y"
  shows "CreateToken lib csp cert key method uri body mode
     = (case GenECDSAToken csp cert key method uri body mode of
          (token, Some err) \<Rightarrow> Returns ([], Some err)
        | (token, None) \<Rightarrow> Returns (token, None))"
  using assms by (auto simp: CreateToken_def)

text \<open>
  Claim C9. For a certificate that \<open>GetX509CertificateFromPEM\<close> parses:
  when its public key is neither an ECDSA key nor a key of the national algorithm,
  \<open>CreateToken\<close> returns the empty token and the nil error, and the result does not
  depend on the crypto suite, the key or the request, so no hash and no signature take
  part in it; when its public key is an ECDSA key or a key of the national algorithm,
  \<open>CreateToken\<close> returns what \<open>GenECDSAToken\<close> returns on the same arguments, with
  the empty token next to an error.
\<close>

theorem CreateToken_by_key_type:
  "GetX509CertificateFromPEM lib cert = (Some c, None)
   \<Longrightarrow> ((\<forall>curve x y. x509_PublicKey c \<noteq> EcdsaPublicKey curve x y
                      \<and> x509_PublicKey c \<noteq> Sm2PublicKey curve x y)
         \<longrightarrow> CreateToken lib csp cert key method uri body mode = Returns ([], None)
             \<and> CreateToken lib csp cert key method uri body mode
                 = CreateToken lib csp' cert key' method' uri' body' mode')
       \<and> ((\<exists>curve x y. x509_PublicKey c = EcdsaPublicKey curve x y
                      \<or> x509_PublicKey c = Sm2PublicKey curve x y)
         \<longrightarrow> CreateToken lib csp cert key method uri body mode
             = (case GenECDSAToken csp cert key method uri body mode of
                  (token, Some err) \<Rightarrow> Returns ([], Some err)
                | (token, None) \<Rightarrow> Returns (token, None)))"
proof -
  assume g: "GetX509CertificateFromPEM lib cert = (Some c, None)"
  show ?thesis
    using CreateToken_other [OF g, of csp key "method" "uri" body mode]
      CreateToken_other [OF g, of csp' key' "method'" "uri'" body' mode']
      CreateToken_elliptic [OF g, of _ _ _ csp key "method" "uri" body mode]
    by metis
qed

lemma example_token:
  "GenECDSAToken (example_csp [1, 2, 3]) example_pem (0::nat) ''POST'' ''/enroll'' [] False
     = (''LS0tLS1CRUdJTiBDRVJUSUZJQ0FURS0tLS0tCkFBPT0KLS0tLS1FTkQgQ0VSVElGSUNBVEUtLS0tLQo=.AQID'', None)"
  by (simp add: GenECDSAToken_def genECDSAToken_def example_csp_def example_pem_def
      bytes_of_string_def b64_digit_def encodeStd_def Let_def)

theorem CreateToken_by_key_type_witness:
  "GetX509CertificateFromPEM (example_util_lib (Some (RsaPublicKey 3233 17))) example_pem
     = (Some (ParseSm2Certificate2X509 (example_sm2_Certificate (RsaPublicKey 3233 17))), None)
   \<and> x509_PublicKey (ParseSm2Certificate2X509 (example_sm2_Certificate (RsaPublicKey 3233 17)))
       = RsaPublicKey 3233 17
   \<and> CreateToken (example_util_lib (Some (RsaPublicKey 3233 17))) (example_csp [1, 2, 3]) example_pem 0
        ''POST'' ''/enroll'' [] False = Returns ([], None)
   \<and> CreateToken (example_util_lib (Some (RsaPublicKey 3233 17))) (example_csp [1, 2, 3]) example_pem 0
        ''POST'' ''/enroll'' [] False
       = CreateToken (example_util_lib (Some (RsaPublicKey 3233 17))) (example_csp []) example_pem 1
           ''GET'' ''/info'' [0] True
   \<and> GetX509CertificateFromPEM (example_util_lib (Some (Sm2PublicKey P256Sm2 1 2))) example_pem
     = (Some (ParseSm2Certificate2X509 (example_sm2_Certificate (Sm2PublicKey P256Sm2 1 2))), None)
   \<and> x509_PublicKey (ParseSm2Certificate2X509 (example_sm2_Certificate (Sm2PublicKey P256Sm2 1 2)))
       = Sm2PublicKey P256Sm2 1 2
   \<and> CreateToken (example_util_lib (Some (Sm2PublicKey P256Sm2 1 2))) (example_csp [1, 2, 3]) example_pem 0
        ''POST'' ''/enroll'' [] False
       = Returns (''LS0tLS1CRUdJTiBDRVJUSUZJQ0FURS0tLS0tCkFBPT0KLS0tLS1FTkQgQ0VSVElGSUNBVEUtLS0tLQo=.AQID'', None)"
proof -
  let ?rsa = "RsaPublicKey 3233 17"
  let ?sm2 = "Sm2PublicKey P256Sm2 1 2"
  have g1: "GetX509CertificateFromPEM (example_util_lib (Some ?rsa)) example_pem
     = (Some (ParseSm2Certificate2X509 (example_sm2_Certificate ?rsa)), None)"
    by (rule example_certificate)
  have g2: "GetX509CertificateFromPEM (example_util_lib (Some ?sm2)) example_pem
     = (Some (ParseSm2Certificate2X509 (example_sm2_Certificate ?sm2)), None)"
    by (rule example_certificate)
  have k1: "x509_PublicKey (ParseSm2Certificate2X509 (example_sm2_Certificate ?rsa)) = ?rsa"
    by (rule example_certificate_PublicKey)
  have k2: "x509_PublicKey (ParseSm2Certificate2X509 (example_sm2_Certificate ?sm2)) = ?sm2"
    by (rule example_certificate_PublicKey)
  have n1: "\<forall>curve x y.
      x509_PublicKey (ParseSm2Certificate2X509 (example_sm2_Certificate ?rsa)) \<noteq> EcdsaPublicKey curve x y
      \<and> x509_PublicKey (ParseSm2Certificate2X509 (example_sm2_Certificate ?rsa)) \<noteq> Sm2PublicKey curve x y"
    unfolding k1 by simp
  have e2: "\<exists>curve x y.
      x509_PublicKey (ParseSm2Certificate2X509 (example_sm2_Certificate ?sm2)) = EcdsaPublicKey curve x y
      \<or> x509_PublicKey (ParseSm2Certificate2X509 (example_sm2_Certificate ?sm2)) = Sm2PublicKey curve x y"
    unfolding k2 by blast
  have t1: "CreateToken (example_util_lib (Some ?rsa)) (example_csp [1, 2, 3]) example_pem 0
        ''POST'' ''/enroll'' [] False = Returns ([], None)
     \<and> CreateToken (example_util_lib (Some ?rsa)) (example_csp [1, 2, 3]) example_pem 0
        ''POST'' ''/enroll'' [] False
       = CreateToken (example_util_lib (Some ?rsa)) (example_csp []) example_pem 1
           ''GET'' ''/info'' [0] True"
    using n1 CreateToken_by_key_type [OF g1, of "example_csp [1, 2, 3]" 0 "''POST''" "''/enroll''" "[]" False
        "example_csp []" 1 "''GET''" "''/info''" "[0]" True]
    by blast
  have t2: "CreateToken (example_util_lib (Some ?sm2)) (example_csp [1, 2, 3]) example_pem 0
        ''POST'' ''/enroll'' [] False
       = (case GenECDSAToken (example_csp [1, 2, 3]) example_pem 0 ''POST'' ''/enroll'' [] False of
            (token, Some err) \<Rightarrow> Returns ([], Some err)
          | (token, None) \<Rightarrow> Returns (token, None))"
    using e2 CreateToken_by_key_type [OF g2, of "example_csp [1, 2, 3]" 0 "''POST''" "''/enroll''" "[]" False
        "example_csp []" 1 "''GET''" "''/info''" "[0]" True]
    by blast
  have t3: "CreateToken (example_util_lib (Some ?sm2)) (example_csp [1, 2, 3]) example_pem 0
        ''POST'' ''/enroll'' [] False
       = Returns (''LS0tLS1CRUdJTiBDRVJUSUZJQ0FURS0tLS0tCkFBPT0KLS0tLS1FTkQgQ0VSVElGSUNBVEUtLS0tLQo=.AQID'', None)"
    unfolding t2 example_token by simp
  show ?thesis using g1 g2 k1 k2 t1 t3 by blast
qed


section \<open>Properties of the empty-signature checks\<close>

text \<open>The token functions, first at one payload, then for a provider that always signs with
  the empty signature.\<close>

lemma genECDSAToken_empty:
  "Hash csp (bytes_of_string payload) GetSHAOpts = (digest, None)
   \<Longrightarrow> Sign csp key digest None = ([], None)
   \<Longrightarrow> genECDSAToken csp key b64cert payload
       = ([], Some (New ''BCCSP signature creation failed. Signature must be different than nil''))"
  by (simp add: genECDSAToken_def)

lemma genECDSAToken_nonempty:
  "genECDSAToken csp key b64cert payload = (token, None) \<Longrightarrow> token \<noteq> []"
  by (auto simp: genECDSAToken_def split: prod.splits option.splits if_splits)

lemma genECDSAToken_stub:
  "\<forall>digest. Sign csp key digest None = ([], None)
   \<Longrightarrow> fst (genECDSAToken csp key b64cert payload) = []
       \<and> snd (genECDSAToken csp key b64cert payload) \<noteq> None"
  by (auto simp: genECDSAToken_def split: prod.splits option.splits)

lemma genECDSAToken_stub_hashed:
  "\<forall>digest. Sign csp key digest None = ([], None)
   \<Longrightarrow> \<forall>msg. snd (Hash csp msg GetSHAOpts) = None
   \<Longrightarrow> genECDSAToken csp key b64cert payload
       = ([], Some (New ''BCCSP signature creation failed. Signature must be different than nil''))"
proof -
  assume s: "\<forall>digest. Sign csp key digest None = ([], None)"
    and h: "\<forall>msg. snd (Hash csp msg GetSHAOpts) = None"
  obtain digest where "Hash csp (bytes_of_string payload) GetSHAOpts = (digest, None)"
    using h by (metis prod.collapse)
  then show ?thesis using s by (simp add: genECDSAToken_empty)
qed

lemma GenECDSAToken_stub:
  "\<forall>digest. Sign csp key digest None = ([], None)
   \<Longrightarrow> fst (GenECDSAToken csp cert key method uri body mode) = []
       \<and> snd (GenECDSAToken csp cert key method uri body mode) \<noteq> None"
  unfolding GenECDSAToken_def Let_def by (rule genECDSAToken_stub)

lemma GenECDSAToken_stub_hashed:
  "\<forall>digest. Sign csp key digest None = ([], None)
   \<Longrightarrow> \<forall>msg. snd (Hash csp msg GetSHAOpts) = None
   \<Longrightarrow> GenECDSAToken csp cert key method uri body mode
       = ([], Some (New ''BCCSP signature creation failed. Signature must be different than nil''))"
  unfolding GenECDSAToken_def Let_def by (rule genECDSAToken_stub_hashed)

lemma CreateToken_stub:
  assumes "\<forall>digest. Sign csp key digest None = ([], None)"
    and "GetX509CertificateFromPEM lib cert = (Some c, None)"
    and "x509_PublicKey c = EcdsaPublicKey curve x y \<or> x509_PublicKey c = Sm2PublicKey curve x y"
  shows "\<exists>err. CreateToken lib csp cert key method uri body mode = Returns ([], Some err)"
proof -
  obtain t e where g: "GenECDSAToken csp cert key method uri body mode = (t, e)"
    by (cases "GenECDSAToken csp cert key method uri body mode") blast
  from GenECDSAToken_stub [OF assms(1), of cert "method" "uri" body mode] g
  obtain err where "e = Some err" by auto
  with g show ?thesis
    unfolding CreateToken_elliptic [OF assms(2) assms(3)] by simp
qed

lemma CreateToken_stub_hashed:
  assumes "\<forall>digest. Sign csp key digest None = ([], None)"
    and "\<forall>msg. snd (Hash csp msg GetSHAOpts) = None"
    and "GetX509CertificateFromPEM lib cert = (Some c, None)"
    and "x509_PublicKey c = EcdsaPublicKey curve x y \<or> x509_PublicKey c = Sm2PublicKey curve x y"
  shows "CreateToken lib csp cert key method uri body mode
     = Returns ([], Some (New ''BCCSP signature creation failed. Signature must be different than nil''))"
  unfolding CreateToken_elliptic [OF assms(3) assms(4)]
    GenECDSAToken_stub_hashed [OF assms(1) assms(2)]
  by simp

lemma CreateSm2CertificateRequestToMem_stub:
  "\<forall>digest. sign_primitive lib key digest = ([], None)
   \<Longrightarrow> CreateSm2CertificateRequestToMem lib tpl key = ([], Some EmptySignature)"
  by (simp add: CreateSm2CertificateRequestToMem_def)

lemma generate_stub:
  assumes "\<forall>digest. sign_primitive lib key digest = ([], None)"
  shows "fst (generate lib priv req key) = [] \<and> snd (generate lib priv req key) \<noteq> None"
proof (cases "\<exists>curve x y. Public priv = Sm2PublicKey curve x y")
  case True
  then obtain curve x y where "Public priv = Sm2PublicKey curve x y" by blast
  then show ?thesis
    by (simp add: generate_sm2 CreateSm2CertificateRequestToMem_stub [OF assms]
        split: option.splits prod.splits)
next
  case False
  then show ?thesis
    by (simp add: generate_unknown signerAlgo_other)
qed

lemma generate_stub_sm2:
  assumes "\<forall>digest. sign_primitive lib key digest = ([], None)"
    and "Public priv = Sm2PublicKey curve x y"
    and "req_CA req = None
         \<or> (\<exists>ca val. req_CA req = Some ca
              \<and> asn1_Marshal lib \<lparr>bc_IsCA = True,
                   bc_MaxPathLen = (if PathLength ca = 0 \<and> \<not> PathLenZero ca then - 1
                                    else PathLength ca)\<rparr> = Inr val)"
  shows "generate lib priv req key = ([], Some EmptySignature)"
  using assms(3)
  by (auto simp: generate_sm2 [OF assms(2)] CreateSm2CertificateRequestToMem_stub [OF assms(1)]
      appendCAInfoToCSRSm2_def Let_def)

text \<open>
  Claim C7. A signature of length zero is a failure of both builders. In
  \<open>genECDSAToken\<close>, when the hash succeeds and the provider signs with the empty
  signature, the result is the empty token with the error that the signature must be
  different from nil, and a result without an error never carries the empty token. With a
  provider whose signatures are all empty, \<open>GenECDSAToken\<close> returns the empty token
  with an error, and so does \<open>CreateToken\<close> on a parsed certificate with an ECDSA key
  or a key of the national algorithm; the error is that of the empty signature when the
  hash does not fail. With a signing primitive whose signatures are all empty,
  \<open>generate\<close> returns no request bytes and an error, for every signing key and
  request; with a key of the national family and a request without a CA configuration,
  or with one whose basic constraints are marshalled, the error is \<open>EmptySignature\<close>.
  The last step of \<open>generate\<close> is modelled from the specification.
\<close>

theorem empty_signature_rejected:
  "(Hash csp (bytes_of_string payload) GetSHAOpts = (digest, None)
      \<and> Sign csp key digest None = ([], None)
     \<longrightarrow> genECDSAToken csp key b64cert payload
         = ([], Some (New ''BCCSP signature creation failed. Signature must be different than nil'')))
   \<and> (genECDSAToken csp key b64cert payload = (token, None) \<longrightarrow> token \<noteq> [])
   \<and> ((\<forall>digest. Sign csp key digest None = ([], None))
      \<longrightarrow> fst (GenECDSAToken csp cert key method uri body mode) = []
          \<and> snd (GenECDSAToken csp cert key method uri body mode) \<noteq> None
          \<and> (GetX509CertificateFromPEM lib cert = (Some c, None)
               \<and> (x509_PublicKey c = EcdsaPublicKey curve x y
                    \<or> x509_PublicKey c = Sm2PublicKey curve x y)
             \<longrightarrow> (\<exists>err. CreateToken lib csp cert key method uri body mode = Returns ([], Some err))
                 \<and> ((\<forall>msg. snd (Hash csp msg GetSHAOpts) = None)
                    \<longrightarrow> CreateToken lib csp cert key method uri body mode
                        = Returns ([], Some (New
                            ''BCCSP signature creation failed. Signature must be different than nil'')))))
   \<and> ((\<forall>digest. sign_primitive rlib rkey digest = ([], None))
      \<longrightarrow> fst (generate rlib priv req rkey) = []
          \<and> snd (generate rlib priv req rkey) \<noteq> None
          \<and> (Public priv = Sm2PublicKey rcurve rx ry
               \<and> (req_CA req = None
                    \<or> (\<exists>ca val. req_CA req = Some ca
                         \<and> asn1_Marshal rlib \<lparr>bc_IsCA = True,
                              bc_MaxPathLen = (if PathLength ca = 0 \<and> \<not> PathLenZero ca then - 1
                                               else PathLength ca)\<rparr> = Inr val))
             \<longrightarrow> generate rlib priv req rkey = ([], Some EmptySignature)))"
proof -
  have a1: "genECDSAToken csp key b64cert payload
         = ([], Some (New ''BCCSP signature creation failed. Signature must be different than nil''))"
    if "Hash csp (bytes_of_string payload) GetSHAOpts = (digest, None)"
      and "Sign csp key digest None = ([], None)"
    using that by (rule genECDSAToken_empty)
  have a2: "token \<noteq> []" if "genECDSAToken csp key b64cert payload = (token, None)"
    using that by (rule genECDSAToken_nonempty)
  have b: "fst (GenECDSAToken csp cert key method uri body mode) = []
          \<and> snd (GenECDSAToken csp cert key method uri body mode) \<noteq> None
          \<and> (GetX509CertificateFromPEM lib cert = (Some c, None)
               \<and> (x509_PublicKey c = EcdsaPublicKey curve x y
                    \<or> x509_PublicKey c = Sm2PublicKey curve x y)
             \<longrightarrow> (\<exists>err. CreateToken lib csp cert key method uri body mode = Returns ([], Some err))
                 \<and> ((\<forall>msg. snd (Hash csp msg GetSHAOpts) = None)
                    \<longrightarrow> CreateToken lib csp cert key method uri body mode
                        = Returns ([], Some (New
                            ''BCCSP signature creation failed. Signature must be different than nil''))))"
    if s: "\<forall>digest. Sign csp key digest None = ([], None)"
    using GenECDSAToken_stub [OF s, of cert "method" "uri" body mode]
      CreateToken_stub [OF s, of lib cert c curve x y "method" "uri" body mode]
      CreateToken_stub_hashed [OF s, of lib cert c curve x y "method" "uri" body mode]
    by blast
  have c: "fst (generate rlib priv req rkey) = []
          \<and> snd (generate rlib priv req rkey) \<noteq> None
          \<and> (Public priv = Sm2PublicKey rcurve rx ry
               \<and> (req_CA req = None
                    \<or> (\<exists>ca val. req_CA req = Some ca
                         \<and> asn1_Marshal rlib \<lparr>bc_IsCA = True,
                              bc_MaxPathLen = (if PathLength ca = 0 \<and> \<not> PathLenZero ca then - 1
                                               else PathLength ca)\<rparr> = Inr val))
             \<longrightarrow> generate rlib priv req rkey = ([], Some EmptySignature))"
    if s: "\<forall>digest. sign_primitive rlib rkey digest = ([], None)"
    using generate_stub [OF s, of priv req]
      generate_stub_sm2 [OF s, of priv rcurve rx ry req]
    by blast
  show ?thesis using a1 a2 b c by blast
qed


theorem empty_signature_rejected_witness:
  "Hash (example_csp []) (bytes_of_string ''AA==.AA=='') GetSHAOpts = ([65, 65], None)
   \<and> Sign (example_csp []) (0::nat) [65, 65] None = ([], None)
   \<and> genECDSAToken (example_csp []) (0::nat) ''AA=='' ''AA==.AA==''
       = ([], Some (New ''BCCSP signature creation failed. Signature must be different than nil''))
   \<and> genECDSAToken (example_csp [1, 2, 3]) (0::nat) ''AA=='' ''AA==.AA=='' = (''AA==.AQID'', None)
   \<and> ''AA==.AQID'' \<noteq> []
   \<and> (\<forall>digest. Sign (example_csp []) (0::nat) digest None = ([], None))
   \<and> (\<forall>msg. snd (Hash (example_csp []) msg GetSHAOpts) = None)
   \<and> GetX509CertificateFromPEM (example_util_lib (Some (Sm2PublicKey P256Sm2 1 2))) example_pem
       = (Some (ParseSm2Certificate2X509 (example_sm2_Certificate (Sm2PublicKey P256Sm2 1 2))), None)
   \<and> x509_PublicKey (ParseSm2Certificate2X509 (example_sm2_Certificate (Sm2PublicKey P256Sm2 1 2)))
       = Sm2PublicKey P256Sm2 1 2
   \<and> snd (GenECDSAToken (example_csp []) example_pem 0 ''POST'' ''/enroll'' [] False) \<noteq> None
   \<and> CreateToken (example_util_lib (Some (Sm2PublicKey P256Sm2 1 2))) (example_csp []) example_pem 0
        ''POST'' ''/enroll'' [] False
       = Returns ([], Some (New ''BCCSP signature creation failed. Signature must be different than nil''))
   \<and> (\<forall>digest. sign_primitive (example_csr_lib []) (0::nat) digest = ([], None))
   \<and> Public \<lparr>Public = Sm2PublicKey P256Sm2 1 2\<rparr> = Sm2PublicKey P256Sm2 1 2
   \<and> req_CA (example_request None) = None
   \<and> generate (example_csr_lib []) \<lparr>Public = Sm2PublicKey P256Sm2 1 2\<rparr> (example_request None) 0
       = ([], Some EmptySignature)
   \<and> asn1_Marshal (example_csr_lib [])
        \<lparr>bc_IsCA = True, bc_MaxPathLen = - 1\<rparr> = Inr [48, 3, 1, 1, 255]
   \<and> generate (example_csr_lib []) \<lparr>Public = Sm2PublicKey P256Sm2 1 2\<rparr>
        (example_request (Some \<lparr>PathLength = 0, PathLenZero = False, Expiry = [], Backdate = []\<rparr>)) 0
       = ([], Some EmptySignature)"
proof -
  let ?sm2 = "Sm2PublicKey P256Sm2 1 2"
  let ?c = "ParseSm2Certificate2X509 (example_sm2_Certificate ?sm2)"
  let ?priv = "\<lparr>Public = ?sm2\<rparr>"
  let ?ca0 = "\<lparr>PathLength = 0, PathLenZero = False, Expiry = [], Backdate = []\<rparr>"
  have h: "Hash (example_csp []) (bytes_of_string ''AA==.AA=='') GetSHAOpts = ([65, 65], None)"
    "Hash (example_csp [1, 2, 3]) (bytes_of_string ''AA==.AA=='') GetSHAOpts = ([65, 65], None)"
    by (simp_all add: example_csp_def bytes_of_string_def)
  have s0: "Sign (example_csp []) (0::nat) [65, 65] None = ([], None)"
    by (simp add: example_csp_def)
  have sa: "\<forall>digest. Sign (example_csp []) (0::nat) digest None = ([], None)"
    by (simp add: example_csp_def)
  have ha: "\<forall>msg. snd (Hash (example_csp []) msg GetSHAOpts) = None"
    by (simp add: example_csp_def)
  have g: "GetX509CertificateFromPEM (example_util_lib (Some ?sm2)) example_pem = (Some ?c, None)"
    by (rule example_certificate)
  have k: "x509_PublicKey ?c = ?sm2"
    by (rule example_certificate_PublicKey)
  have t: "genECDSAToken (example_csp [1, 2, 3]) (0::nat) ''AA=='' ''AA==.AA=='' = (''AA==.AQID'', None)"
    by (simp add: genECDSAToken_def example_csp_def b64_digit_def encodeStd_def)
  have ra: "\<forall>digest. sign_primitive (example_csr_lib []) (0::nat) digest = ([], None)"
    by (simp add: example_csr_lib_def)
  have p: "Public ?priv = ?sm2" by simp
  have n: "req_CA (example_request None) = None" by (simp add: example_request_def)
  have m: "asn1_Marshal (example_csr_lib []) \<lparr>bc_IsCA = True, bc_MaxPathLen = - 1\<rparr>
       = Inr [48, 3, 1, 1, 255]"
    by (simp add: example_csr_lib_def)
  have ca: "req_CA (example_request (Some ?ca0)) = None
       \<or> (\<exists>ca val. req_CA (example_request (Some ?ca0)) = Some ca
            \<and> asn1_Marshal (example_csr_lib []) \<lparr>bc_IsCA = True,
                 bc_MaxPathLen = (if PathLength ca = 0 \<and> \<not> PathLenZero ca then - 1
                                  else PathLength ca)\<rparr> = Inr val)"
    using m by (simp add: example_request_def)
  note i1 = empty_signature_rejected [of "example_csp []" "''AA==.AA==''" "[65, 65]" 0 "''AA==''"
      "[]" example_pem "''POST''" "''/enroll''" "[]" False
      "example_util_lib (Some ?sm2)" ?c P256Sm2 1 2
      "example_csr_lib []" 0 ?priv "example_request None" P256Sm2 1 2]
  note i2 = empty_signature_rejected [of "example_csp [1, 2, 3]" "''AA==.AA==''" "[65, 65]" 0 "''AA==''"
      "''AA==.AQID''" example_pem "''POST''" "''/enroll''" "[]" False
      "example_util_lib (Some ?sm2)" ?c P256Sm2 1 2
      "example_csr_lib []" 0 ?priv "example_request (Some ?ca0)" P256Sm2 1 2]
  have r1: "genECDSAToken (example_csp []) (0::nat) ''AA=='' ''AA==.AA==''
       = ([], Some (New ''BCCSP signature creation failed. Signature must be different than nil''))"
    using i1 h(1) s0 by blast
  have r2: "''AA==.AQID'' \<noteq> []"
    using i2 t by blast
  have r3: "snd (GenECDSAToken (example_csp []) example_pem 0 ''POST'' ''/enroll'' [] False) \<noteq> None"
    using i1 sa by blast
  have r4: "CreateToken (example_util_lib (Some ?sm2)) (example_csp []) example_pem 0
        ''POST'' ''/enroll'' [] False
       = Returns ([], Some (New ''BCCSP signature creation failed. Signature must be different than nil''))"
    using i1 sa ha g k by blast
  have r5: "generate (example_csr_lib []) ?priv (example_request None) 0 = ([], Some EmptySignature)"
    using i1 ra p n by blast
  have r6: "generate (example_csr_lib []) ?priv (example_request (Some ?ca0)) 0
       = ([], Some EmptySignature)"
    using i2 ra p ca by blast
  show ?thesis
    using h(1) s0 r1 t r2 sa ha g k r3 r4 ra p n r5 m r6 by blast
qed

end
